theory Spec2Isabelle
  imports Main "HOL-Library.Word"
begin

section \<open>Common types and constants of the abstraction layer\<close>

text \<open>
  The ports share the API of \<^verbatim>\<open>os_port.h\<close> and differ in the kernel they call.
  Each port is embedded under the name of its source function, prefixed by the port
  (\<open>cmx_\<close> for \<^verbatim>\<open>os_port_cmx_rtx.c\<close>, \<open>safertos_\<close>, \<open>zephyr_\<close>, \<open>px5_\<close>),
  since the four files define the same function names.

  Pointers are 32-bit addresses and \<open>NULL\<close> is address 0. A call that blocks for ever
  has no result: functions that may block return an \<open>option\<close>, and \<open>None\<close> stands
  for "the call never returns" (no other task runs in this sequential model, so a
  semaphore that is empty when an unbounded wait starts stays empty).
\<close>

type_synonym addr = "32 word"
type_synonym systime_t = "32 word"
type_synonym uint_t = "32 word"

definition NULL :: addr where
  "NULL = 0"

text \<open>
  Modelled from the spec: \<^verbatim>\<open>os_port.h\<close>, which defines \<^verbatim>\<open>INFINITE_DELAY\<close>, is not
  among the sources; the spec only names the value \<open>INFINITE\<close>, distinct from a poll
  (\<open>0\<close>) and from a millisecond duration. It is the all-ones value here.
\<close>

definition INFINITE_DELAY :: systime_t where
  "INFINITE_DELAY = - 1"

text \<open>The default conversion macro of \<^verbatim>\<open>os_port_cmx_rtx.h\<close> and \<^verbatim>\<open>os_port_safertos.h\<close>.\<close>

definition OS_MS_TO_SYSTICKS :: "systime_t \<Rightarrow> 32 word" where
  "OS_MS_TO_SYSTICKS n = n"

text \<open>
  The task and scheduler operations of the four kernels. The kernels are external to the
  repository; for these operations the model records which one a port requests, in the
  order of the requests.
\<close>

record xTaskParameters =
  pvTaskCode :: addr
  pcTaskName :: string
  pxTCB :: addr
  pcStackBuffer :: addr
  ulStackDepthBytes :: "32 word"
  pvParameters :: addr
  uxPriority :: "32 word"
  xUsingFPU :: bool
  uxPrivilegeLevel_privileged :: bool

datatype kernel_call =
    K_Task_End
  | K_Task_Delete "8 word"
  | K_Task_Lock
  | K_Task_Unlock
  | Px5_pthread_exit
  | Pthread_cancel addr
  | XTaskCreate xTaskParameters
  | XTaskDelete addr
  | VTaskSuspendScheduler
  | XTaskResumeScheduler
  | K_thread_create addr addr "32 word" addr addr "32 word"
  | K_thread_name_set addr string
  | K_thread_abort addr
  | K_sched_lock
  | K_sched_unlock

text \<open>
  The two kinds of task termination request the kernels offer: ending the calling task
  through an operation of its own, and deleting a task given by its handle.
\<close>

fun is_exit_current_task :: "kernel_call \<Rightarrow> bool" where
  "is_exit_current_task K_Task_End = True"
| "is_exit_current_task Px5_pthread_exit = True"
| "is_exit_current_task _ = False"

fun is_delete_by_handle :: "kernel_call \<Rightarrow> bool" where
  "is_delete_by_handle (K_Task_Delete _) = True"
| "is_delete_by_handle (Pthread_cancel _) = True"
| "is_delete_by_handle (XTaskDelete _) = True"
| "is_delete_by_handle (K_thread_abort _) = True"
| "is_delete_by_handle _ = False"

fun is_scheduler_lock_call :: "kernel_call \<Rightarrow> bool" where
  "is_scheduler_lock_call K_Task_Lock = True"
| "is_scheduler_lock_call K_Task_Unlock = True"
| "is_scheduler_lock_call VTaskSuspendScheduler = True"
| "is_scheduler_lock_call XTaskResumeScheduler = True"
| "is_scheduler_lock_call K_sched_lock = True"
| "is_scheduler_lock_call K_sched_unlock = True"
| "is_scheduler_lock_call _ = False"


section \<open>CMX-RTX port\<close>

subsection \<open>Semaphore identifier allocator\<close>

text \<open>
  \<^verbatim>\<open>OS_INVALID_SEMAPHORE_ID\<close> is 255. The table \<^verbatim>\<open>semaphoreTable\<close> has
  \<^verbatim>\<open>OS_MAX_SEMAPHORES\<close> entries, so the bound of the scan is the length of the table;
  the header rejects a configuration outside 1..255 at compile time.
\<close>

definition OS_INVALID_SEMAPHORE_ID :: "8 word" where
  "OS_INVALID_SEMAPHORE_ID = 255"

text \<open>
  The \<^verbatim>\<open>for\<close> loop of \<^verbatim>\<open>osAllocateSemaphoreId\<close>: it runs while
  \<^verbatim>\<open>i < OS_MAX_SEMAPHORES && id == OS_INVALID_SEMAPHORE_ID\<close>, and the index is cast to
  \<^verbatim>\<open>uint8_t\<close> when a free entry is found.
\<close>

function alloc_loop :: "nat \<Rightarrow> 8 word \<Rightarrow> bool list \<Rightarrow> 8 word \<times> bool list" where
  "alloc_loop i ident tbl =
     (if i < length tbl \<and> ident = OS_INVALID_SEMAPHORE_ID then
        (if tbl ! i = False
         then alloc_loop (Suc i) (word_of_nat i) (tbl[i := True])
         else alloc_loop (Suc i) ident tbl)
      else (ident, tbl))"
  by pat_completeness auto
termination
  by (relation "measure (\<lambda>(i, ident, tbl). length tbl - i)") auto

definition osAllocateSemaphoreId :: "bool list \<Rightarrow> 8 word \<times> bool list" where
  "osAllocateSemaphoreId tbl = alloc_loop 0 OS_INVALID_SEMAPHORE_ID tbl"

definition osFreeSemaphoreId :: "8 word \<Rightarrow> bool list \<Rightarrow> bool list" where
  "osFreeSemaphoreId ident tbl =
     (if unat ident < length tbl then tbl[unat ident := False] else tbl)"

text \<open>Consecutive calls of \<^verbatim>\<open>osAllocateSemaphoreId\<close>, with the identifiers in call order.\<close>

fun alloc_many :: "nat \<Rightarrow> bool list \<Rightarrow> 8 word list \<times> bool list" where
  "alloc_many 0 tbl = ([], tbl)"
| "alloc_many (Suc n) tbl =
     (case osAllocateSemaphoreId tbl of (ident, tbl') \<Rightarrow>
        (case alloc_many n tbl' of (ids, tbl'') \<Rightarrow> (ident # ids, tbl'')))"

text \<open>The table in which exactly the entries below \<open>k\<close> are in use.\<close>

definition used_below :: "nat \<Rightarrow> nat \<Rightarrow> bool list" where
  "used_below n k = map (\<lambda>j. j < k) [0..<n]"

subsection \<open>The CMX-RTX kernel\<close>

text \<open>
  Modelled from the spec: the CMX-RTX kernel (\<^verbatim>\<open>cxfuncs.h\<close>) is an external
  collaborator and not among the sources. Following the downward contract of the spec (a
  counting semaphore with create, wait and post), a kernel semaphore is a counter
  addressed by its number. \<^verbatim>\<open>K_Semaphore_Create\<close> rejects a number beyond the kernel's
  configured maximum; \<^verbatim>\<open>K_Semaphore_Get\<close> never blocks; \<^verbatim>\<open>K_Semaphore_Wait\<close> with
  a time period of 0 waits without bound.
\<close>

datatype cmx_status = K_OK | K_ERROR | K_TIMEOUT | K_SEMAPHORE_NONE

record cmx_state =
  semaphoreTable :: "bool list"
  k_semaphores :: "8 word \<rightharpoonup> nat"
  k_max_semaphores :: nat
  k_os_started :: bool
  k_calls :: "kernel_call list"

definition K_Semaphore_Create :: "8 word \<Rightarrow> nat \<Rightarrow> cmx_state \<Rightarrow> cmx_status \<times> cmx_state" where
  "K_Semaphore_Create sem n s =
     (if unat sem < k_max_semaphores s
      then (K_OK, s\<lparr>k_semaphores := (k_semaphores s)(sem \<mapsto> n)\<rparr>)
      else (K_ERROR, s))"

definition K_Semaphore_Post :: "8 word \<Rightarrow> cmx_state \<Rightarrow> cmx_status \<times> cmx_state" where
  "K_Semaphore_Post sem s =
     (case k_semaphores s sem of
        None \<Rightarrow> (K_ERROR, s)
      | Some c \<Rightarrow> (K_OK, s\<lparr>k_semaphores := (k_semaphores s)(sem \<mapsto> Suc c)\<rparr>))"

definition K_Semaphore_Get :: "8 word \<Rightarrow> cmx_state \<Rightarrow> cmx_status \<times> cmx_state" where
  "K_Semaphore_Get sem s =
     (case k_semaphores s sem of
        None \<Rightarrow> (K_ERROR, s)
      | Some 0 \<Rightarrow> (K_SEMAPHORE_NONE, s)
      | Some (Suc c) \<Rightarrow> (K_OK, s\<lparr>k_semaphores := (k_semaphores s)(sem \<mapsto> c)\<rparr>))"

definition K_Semaphore_Wait ::
  "8 word \<Rightarrow> 32 word \<Rightarrow> cmx_state \<Rightarrow> (cmx_status \<times> cmx_state) option" where
  "K_Semaphore_Wait sem ticks s =
     (case k_semaphores s sem of
        None \<Rightarrow> Some (K_ERROR, s)
      | Some 0 \<Rightarrow> (if ticks = 0 then None else Some (K_TIMEOUT, s))
      | Some (Suc c) \<Rightarrow> Some (K_OK, s\<lparr>k_semaphores := (k_semaphores s)(sem \<mapsto> c)\<rparr>))"

definition cmx_request :: "kernel_call \<Rightarrow> cmx_state \<Rightarrow> cmx_state" where
  "cmx_request c s = s\<lparr>k_calls := k_calls s @ [c]\<rparr>"

subsection \<open>Task management\<close>

text \<open>\<^verbatim>\<open>OS_SELF_TASK_ID\<close> is 0 in \<^verbatim>\<open>os_port_cmx_rtx.h\<close>; \<^verbatim>\<open>OsTaskId\<close> is \<^verbatim>\<open>uint8_t\<close>.\<close>

definition cmx_OS_SELF_TASK_ID :: "8 word" where
  "cmx_OS_SELF_TASK_ID = 0"

definition cmx_osDeleteTask :: "8 word \<Rightarrow> cmx_state \<Rightarrow> cmx_state" where
  "cmx_osDeleteTask taskId s =
     (if taskId = cmx_OS_SELF_TASK_ID
      then cmx_request K_Task_End s
      else cmx_request (K_Task_Delete taskId) s)"

definition cmx_osSuspendAllTasks :: "cmx_state \<Rightarrow> cmx_state" where
  "cmx_osSuspendAllTasks s = cmx_request K_Task_Lock s"

definition cmx_osResumeAllTasks :: "cmx_state \<Rightarrow> cmx_state" where
  "cmx_osResumeAllTasks s = cmx_request K_Task_Unlock s"

subsection \<open>Event objects\<close>

record cmx_OsEvent =
  event_id :: "8 word"

definition cmx_osCreateEvent :: "cmx_OsEvent \<Rightarrow> cmx_state \<Rightarrow> bool \<times> cmx_OsEvent \<times> cmx_state" where
  "cmx_osCreateEvent event s =
     (case osAllocateSemaphoreId (semaphoreTable s) of (ident, tbl) \<Rightarrow>
        (let event' = event\<lparr>event_id := ident\<rparr>;
             s1 = s\<lparr>semaphoreTable := tbl\<rparr>;
             (status, s2) =
               (if event_id event' \<noteq> OS_INVALID_SEMAPHORE_ID
                then K_Semaphore_Create (event_id event') 0 s1
                else (K_ERROR, s1))
         in if status = K_OK then (True, event', s2) else (False, event', s2)))"

text \<open>
  The state of an event in the kernel: \<open>None\<close> when the kernel has no semaphore under
  the event's identifier, otherwise the count of that semaphore. The event is nonsignaled
  when the count is 0.
\<close>

definition cmx_event_count :: "cmx_OsEvent \<Rightarrow> cmx_state \<Rightarrow> nat option" where
  "cmx_event_count event s = k_semaphores s (event_id event)"

definition cmx_osSetEvent :: "cmx_OsEvent \<Rightarrow> cmx_state \<Rightarrow> cmx_state" where
  "cmx_osSetEvent event s = snd (K_Semaphore_Post (event_id event) s)"

text \<open>
  The loop \<^verbatim>\<open>do { status = K_Semaphore_Get(id); } while(status == K_OK);\<close> of
  \<^verbatim>\<open>osResetEvent\<close> and \<^verbatim>\<open>osWaitForEvent\<close>. It ends because each successful
  \<^verbatim>\<open>K_Semaphore_Get\<close> lowers the count.
\<close>

definition semaphore_count :: "8 word \<Rightarrow> cmx_state \<Rightarrow> nat" where
  "semaphore_count sem s = (case k_semaphores s sem of None \<Rightarrow> 0 | Some c \<Rightarrow> c)"

function cmx_drain :: "8 word \<Rightarrow> cmx_state \<Rightarrow> cmx_state" where
  "cmx_drain sem s =
     (case K_Semaphore_Get sem s of (status, s') \<Rightarrow>
        if status = K_OK then cmx_drain sem s' else s')"
  by pat_completeness auto
termination
  by (relation "measure (\<lambda>(sem, s). semaphore_count sem s)")
     (auto simp: K_Semaphore_Get_def semaphore_count_def split: option.splits nat.splits)

definition cmx_osResetEvent :: "cmx_OsEvent \<Rightarrow> cmx_state \<Rightarrow> cmx_state" where
  "cmx_osResetEvent event s = cmx_drain (event_id event) s"

definition cmx_osWaitForEvent ::
  "cmx_OsEvent \<Rightarrow> systime_t \<Rightarrow> cmx_state \<Rightarrow> (bool \<times> cmx_state) option" where
  "cmx_osWaitForEvent event timeout s =
     (case (if timeout = 0 then Some (K_Semaphore_Get (event_id event) s)
            else if timeout = INFINITE_DELAY then K_Semaphore_Wait (event_id event) 0 s
            else K_Semaphore_Wait (event_id event) (OS_MS_TO_SYSTICKS timeout) s) of
        None \<Rightarrow> None
      | Some (status, s') \<Rightarrow>
          if status = K_OK then Some (True, cmx_drain (event_id event) s')
          else Some (False, s'))"

subsection \<open>Semaphore objects\<close>

text \<open>
  \<^verbatim>\<open>osCreateSemaphore\<close> hands \<^verbatim>\<open>count\<close> to \<^verbatim>\<open>K_Semaphore_Create\<close>, which takes it
  as the count the semaphore starts with.
\<close>

record cmx_OsSemaphore =
  semaphore_id :: "8 word"

definition cmx_osCreateSemaphore ::
  "cmx_OsSemaphore \<Rightarrow> uint_t \<Rightarrow> cmx_state \<Rightarrow> bool \<times> cmx_OsSemaphore \<times> cmx_state" where
  "cmx_osCreateSemaphore semaphore count s =
     (case osAllocateSemaphoreId (semaphoreTable s) of (ident, tbl) \<Rightarrow>
        (let semaphore' = semaphore\<lparr>semaphore_id := ident\<rparr>;
             s1 = s\<lparr>semaphoreTable := tbl\<rparr>;
             (status, s2) =
               (if semaphore_id semaphore' \<noteq> OS_INVALID_SEMAPHORE_ID
                then K_Semaphore_Create (semaphore_id semaphore') (unat count) s1
                else (K_ERROR, s1))
         in if status = K_OK then (True, semaphore', s2) else (False, semaphore', s2)))"

definition cmx_osWaitForSemaphore ::
  "cmx_OsSemaphore \<Rightarrow> systime_t \<Rightarrow> cmx_state \<Rightarrow> (bool \<times> cmx_state) option" where
  "cmx_osWaitForSemaphore semaphore timeout s =
     (case (if timeout = 0 then Some (K_Semaphore_Get (semaphore_id semaphore) s)
            else if timeout = INFINITE_DELAY then K_Semaphore_Wait (semaphore_id semaphore) 0 s
            else K_Semaphore_Wait (semaphore_id semaphore) (OS_MS_TO_SYSTICKS timeout) s) of
        None \<Rightarrow> None
      | Some (status, s') \<Rightarrow> if status = K_OK then Some (True, s') else Some (False, s'))"

definition cmx_osReleaseSemaphore :: "cmx_OsSemaphore \<Rightarrow> cmx_state \<Rightarrow> cmx_state" where
  "cmx_osReleaseSemaphore semaphore s = snd (K_Semaphore_Post (semaphore_id semaphore) s)"

subsection \<open>Mutex objects\<close>

record cmx_OsMutex =
  mutex_id :: "8 word"

definition cmx_osCreateMutex :: "cmx_OsMutex \<Rightarrow> cmx_state \<Rightarrow> bool \<times> cmx_OsMutex \<times> cmx_state" where
  "cmx_osCreateMutex mutex s =
     (case osAllocateSemaphoreId (semaphoreTable s) of (ident, tbl) \<Rightarrow>
        (let mutex' = mutex\<lparr>mutex_id := ident\<rparr>;
             s1 = s\<lparr>semaphoreTable := tbl\<rparr>;
             (status, s2) =
               (if mutex_id mutex' \<noteq> OS_INVALID_SEMAPHORE_ID
                then K_Semaphore_Create (mutex_id mutex') 0 s1
                else (K_ERROR, s1));
             (status', s3) =
               (if status = K_OK then K_Semaphore_Post (mutex_id mutex') s2 else (status, s2))
         in if status' = K_OK then (True, mutex', s3) else (False, mutex', s3)))"

definition cmx_osAcquireMutex :: "cmx_OsMutex \<Rightarrow> cmx_state \<Rightarrow> cmx_state option" where
  "cmx_osAcquireMutex mutex s = map_option snd (K_Semaphore_Wait (mutex_id mutex) 0 s)"

definition cmx_osReleaseMutex :: "cmx_OsMutex \<Rightarrow> cmx_state \<Rightarrow> cmx_state" where
  "cmx_osReleaseMutex mutex s = snd (K_Semaphore_Post (mutex_id mutex) s)"


section \<open>SafeRTOS port\<close>

subsection \<open>The SafeRTOS kernel\<close>

text \<open>
  Modelled from the spec: the SafeRTOS kernel (\<^verbatim>\<open>SafeRTOS_API.h\<close>) is an external
  collaborator and not among the sources. Following the downward contract of the spec (a
  counting or binary semaphore with create, wait and post), a semaphore is a counter with
  a maximum, kept in the buffer the caller supplies, and its handle is the address of
  that buffer. A binary semaphore has maximum 1; whether the kernel creates it available
  or empty is a property of the kernel (\<open>x_binary_created_full\<close>) that the port does
  not rely on. Giving a semaphore that is at its maximum fails and leaves it unchanged.
  A take with \<^verbatim>\<open>portMAX_DELAY\<close> on an empty semaphore waits without bound, any other
  take on an empty semaphore fails once the ticks have elapsed.
  \<^verbatim>\<open>portQUEUE_OVERHEAD_BYTES\<close> is a constant of the kernel (\<open>x_queue_overhead\<close>).
  Creating a semaphore fails on a \<open>NULL\<close> buffer and on a buffer that already holds
  one; \<^verbatim>\<open>xTaskCreate\<close> fails on a control block that is in use and on a \<open>NULL\<close>
  entry point. Task and scheduler operations are recorded in \<open>x_calls\<close>.
\<close>

datatype portBaseType =
    pdPASS
  | errINVALID_PARAMETERS
  | errSEMAPHORE_ALREADY_TAKEN
  | errSEMAPHORE_ALREADY_GIVEN
  | errINVALID_SEMAPHORE_HANDLE

record xsemaphore =
  sem_count :: nat
  sem_max :: nat

record safertos_kernel =
  x_queues :: "addr \<rightharpoonup> xsemaphore"
  x_binary_created_full :: bool
  x_queue_overhead :: "32 word"
  x_scheduler_started :: bool
  x_tasks :: "addr list"
  x_calls :: "kernel_call list"

definition portMAX_DELAY :: "32 word" where
  "portMAX_DELAY = - 1"

definition x_request :: "kernel_call \<Rightarrow> safertos_kernel \<Rightarrow> safertos_kernel" where
  "x_request c k = k\<lparr>x_calls := x_calls k @ [c]\<rparr>"

definition xTaskCreate ::
  "xTaskParameters \<Rightarrow> safertos_kernel \<Rightarrow> portBaseType \<times> addr \<times> safertos_kernel" where
  "xTaskCreate taskParams k =
     (let k1 = x_request (XTaskCreate taskParams) k
      in if pxTCB taskParams \<in> set (x_tasks k1) \<or> pvTaskCode taskParams = NULL
         then (errINVALID_PARAMETERS, NULL, k1)
         else (pdPASS, pxTCB taskParams, k1\<lparr>x_tasks := pxTCB taskParams # x_tasks k1\<rparr>))"

definition xTaskDelete :: "addr \<Rightarrow> safertos_kernel \<Rightarrow> safertos_kernel" where
  "xTaskDelete h k = x_request (XTaskDelete h) k"

definition xTaskIsSchedulerStarted :: "safertos_kernel \<Rightarrow> bool" where
  "xTaskIsSchedulerStarted k = x_scheduler_started k"

definition vTaskSuspendScheduler :: "safertos_kernel \<Rightarrow> safertos_kernel" where
  "vTaskSuspendScheduler k = x_request VTaskSuspendScheduler k"

definition xTaskResumeScheduler :: "safertos_kernel \<Rightarrow> safertos_kernel" where
  "xTaskResumeScheduler k = x_request XTaskResumeScheduler k"

definition xSemaphoreCreateCounting ::
  "32 word \<Rightarrow> 32 word \<Rightarrow> addr \<Rightarrow> safertos_kernel \<Rightarrow> portBaseType \<times> addr \<times> safertos_kernel" where
  "xSemaphoreCreateCounting uxMaxCount uxInitialCount p k =
     (if uxMaxCount = 0 \<or> uxMaxCount < uxInitialCount \<or> p = NULL \<or> x_queues k p \<noteq> None
      then (errINVALID_PARAMETERS, NULL, k)
      else (pdPASS, p,
            k\<lparr>x_queues := (x_queues k)
                 (p \<mapsto> \<lparr>sem_count = unat uxInitialCount, sem_max = unat uxMaxCount\<rparr>)\<rparr>))"

definition xSemaphoreCreateBinary ::
  "addr \<Rightarrow> safertos_kernel \<Rightarrow> portBaseType \<times> addr \<times> safertos_kernel" where
  "xSemaphoreCreateBinary p k =
     (if p = NULL \<or> x_queues k p \<noteq> None
      then (errINVALID_PARAMETERS, NULL, k)
      else (pdPASS, p,
            k\<lparr>x_queues := (x_queues k)
                 (p \<mapsto> \<lparr>sem_count = (if x_binary_created_full k then 1 else 0),
                        sem_max = 1\<rparr>)\<rparr>))"

definition xSemaphoreTake ::
  "addr \<Rightarrow> 32 word \<Rightarrow> safertos_kernel \<Rightarrow> (portBaseType \<times> safertos_kernel) option" where
  "xSemaphoreTake h ticks k =
     (case x_queues k h of
        None \<Rightarrow> Some (errINVALID_SEMAPHORE_HANDLE, k)
      | Some q \<Rightarrow>
          if 0 < sem_count q
          then Some (pdPASS, k\<lparr>x_queues := (x_queues k)(h \<mapsto> q\<lparr>sem_count := sem_count q - 1\<rparr>)\<rparr>)
          else if ticks = portMAX_DELAY then None
          else Some (errSEMAPHORE_ALREADY_TAKEN, k))"

definition xSemaphoreGive :: "addr \<Rightarrow> safertos_kernel \<Rightarrow> portBaseType \<times> safertos_kernel" where
  "xSemaphoreGive h k =
     (case x_queues k h of
        None \<Rightarrow> (errINVALID_SEMAPHORE_HANDLE, k)
      | Some q \<Rightarrow>
          if sem_count q < sem_max q
          then (pdPASS, k\<lparr>x_queues := (x_queues k)(h \<mapsto> q\<lparr>sem_count := sem_count q + 1\<rparr>)\<rparr>)
          else (errSEMAPHORE_ALREADY_GIVEN, k))"

subsection \<open>Task management\<close>

text \<open>
  \<^verbatim>\<open>OsTaskParameters\<close> of \<^verbatim>\<open>os_port_safertos.h\<close>. The Zephyr port reads the same four
  fields of its own \<^verbatim>\<open>OsTaskParameters\<close> and shares the record.
  \<^verbatim>\<open>xTaskParameters\<close> is the kernel's parameter block that \<^verbatim>\<open>osCreateTask\<close> fills in.
\<close>

record OsTaskParameters =
  tcb :: addr
  stack :: addr
  stackSize :: "32 word"
  priority :: "32 word"

definition safertos_OS_INVALID_TASK_ID :: addr where
  "safertos_OS_INVALID_TASK_ID = NULL"

definition safertos_OS_SELF_TASK_ID :: addr where
  "safertos_OS_SELF_TASK_ID = NULL"

text \<open>\<^verbatim>\<open>taskIDLE_PRIORITY\<close> is a constant of the kernel and a parameter here.\<close>

definition safertos_OS_TASK_DEFAULT_PARAMS :: "32 word \<Rightarrow> OsTaskParameters" where
  "safertos_OS_TASK_DEFAULT_PARAMS taskIDLE_PRIORITY =
     \<lparr>tcb = NULL, stack = NULL, stackSize = 0, priority = taskIDLE_PRIORITY + 1\<rparr>"

definition safertos_osCreateTask ::
  "string \<Rightarrow> addr \<Rightarrow> addr \<Rightarrow> OsTaskParameters \<Rightarrow> safertos_kernel \<Rightarrow> addr \<times> safertos_kernel" where
  "safertos_osCreateTask name taskCode arg params k =
     (if tcb params \<noteq> NULL \<and> stack params \<noteq> NULL then
        (let taskParams =
               \<lparr>pvTaskCode = taskCode, pcTaskName = name, pxTCB = tcb params,
                pcStackBuffer = stack params, ulStackDepthBytes = stackSize params,
                pvParameters = arg, uxPriority = priority params, xUsingFPU = True,
                uxPrivilegeLevel_privileged = True\<rparr>;
             (status, handle, k1) = xTaskCreate taskParams k
         in if status \<noteq> pdPASS then (safertos_OS_INVALID_TASK_ID, k1) else (handle, k1))
      else (safertos_OS_INVALID_TASK_ID, k))"

definition safertos_osDeleteTask :: "addr \<Rightarrow> safertos_kernel \<Rightarrow> safertos_kernel" where
  "safertos_osDeleteTask taskId k = xTaskDelete taskId k"

definition safertos_osSuspendAllTasks :: "safertos_kernel \<Rightarrow> safertos_kernel" where
  "safertos_osSuspendAllTasks k =
     (if xTaskIsSchedulerStarted k = True then vTaskSuspendScheduler k else k)"

definition safertos_osResumeAllTasks :: "safertos_kernel \<Rightarrow> safertos_kernel" where
  "safertos_osResumeAllTasks k =
     (if xTaskIsSchedulerStarted k = True then xTaskResumeScheduler k else k)"

subsection \<open>Event, semaphore and mutex objects\<close>

text \<open>
  \<^verbatim>\<open>OsEvent\<close>, \<^verbatim>\<open>OsSemaphore\<close> and \<^verbatim>\<open>OsMutex\<close> have the same two members: the handle
  and a buffer of \<^verbatim>\<open>portQUEUE_OVERHEAD_BYTES * 2\<close> bytes. The record holds the handle
  and the address of the buffer.
\<close>

record safertos_OsEvent =
  handle :: addr
  buffer :: addr

type_synonym safertos_OsSemaphore = safertos_OsEvent
type_synonym safertos_OsMutex = safertos_OsEvent

text \<open>The buffer address rounded up to the next multiple of \<^verbatim>\<open>portQUEUE_OVERHEAD_BYTES\<close>.\<close>

definition aligned_buffer :: "safertos_OsEvent \<Rightarrow> safertos_kernel \<Rightarrow> addr" where
  "aligned_buffer obj k =
     (let p = buffer obj; n = p mod x_queue_overhead k
      in p + (x_queue_overhead k - n))"

definition safertos_osCreateEvent ::
  "safertos_OsEvent \<Rightarrow> safertos_kernel \<Rightarrow> (bool \<times> safertos_OsEvent \<times> safertos_kernel) option" where
  "safertos_osCreateEvent event k =
     (case xSemaphoreCreateBinary (aligned_buffer event k) k of (status, h, k1) \<Rightarrow>
        if status = pdPASS then
          (case xSemaphoreTake h 0 k1 of
             None \<Rightarrow> None
           | Some (taken, k2) \<Rightarrow> Some (True, event\<lparr>handle := h\<rparr>, k2))
        else Some (False, event, k1))"

definition safertos_osSetEvent :: "safertos_OsEvent \<Rightarrow> safertos_kernel \<Rightarrow> safertos_kernel" where
  "safertos_osSetEvent event k = snd (xSemaphoreGive (handle event) k)"

definition safertos_osResetEvent ::
  "safertos_OsEvent \<Rightarrow> safertos_kernel \<Rightarrow> safertos_kernel option" where
  "safertos_osResetEvent event k = map_option snd (xSemaphoreTake (handle event) 0 k)"

definition safertos_osWaitForEvent ::
  "safertos_OsEvent \<Rightarrow> systime_t \<Rightarrow> safertos_kernel \<Rightarrow> (bool \<times> safertos_kernel) option" where
  "safertos_osWaitForEvent event timeout k =
     (case (if timeout = INFINITE_DELAY then xSemaphoreTake (handle event) portMAX_DELAY k
            else xSemaphoreTake (handle event) (OS_MS_TO_SYSTICKS timeout) k) of
        None \<Rightarrow> None
      | Some (status, k1) \<Rightarrow> if status = pdPASS then Some (True, k1) else Some (False, k1))"

definition safertos_osCreateSemaphore ::
  "safertos_OsSemaphore \<Rightarrow> uint_t \<Rightarrow> safertos_kernel \<Rightarrow>
   bool \<times> safertos_OsSemaphore \<times> safertos_kernel" where
  "safertos_osCreateSemaphore semaphore count k =
     (case xSemaphoreCreateCounting count count (aligned_buffer semaphore k) k of
        (status, h, k1) \<Rightarrow>
          if status = pdPASS then (True, semaphore\<lparr>handle := h\<rparr>, k1)
          else (False, semaphore, k1))"

definition safertos_osWaitForSemaphore ::
  "safertos_OsSemaphore \<Rightarrow> systime_t \<Rightarrow> safertos_kernel \<Rightarrow> (bool \<times> safertos_kernel) option" where
  "safertos_osWaitForSemaphore semaphore timeout k =
     (case (if timeout = INFINITE_DELAY then xSemaphoreTake (handle semaphore) portMAX_DELAY k
            else xSemaphoreTake (handle semaphore) (OS_MS_TO_SYSTICKS timeout) k) of
        None \<Rightarrow> None
      | Some (status, k1) \<Rightarrow> if status = pdPASS then Some (True, k1) else Some (False, k1))"

definition safertos_osReleaseSemaphore ::
  "safertos_OsSemaphore \<Rightarrow> safertos_kernel \<Rightarrow> safertos_kernel" where
  "safertos_osReleaseSemaphore semaphore k = snd (xSemaphoreGive (handle semaphore) k)"

definition safertos_osCreateMutex ::
  "safertos_OsMutex \<Rightarrow> safertos_kernel \<Rightarrow> bool \<times> safertos_OsMutex \<times> safertos_kernel" where
  "safertos_osCreateMutex mutex k =
     (case xSemaphoreCreateBinary (aligned_buffer mutex k) k of (status, h, k1) \<Rightarrow>
        if status = pdPASS then (True, mutex\<lparr>handle := h\<rparr>, snd (xSemaphoreGive h k1))
        else (False, mutex, k1))"

definition safertos_osAcquireMutex ::
  "safertos_OsMutex \<Rightarrow> safertos_kernel \<Rightarrow> safertos_kernel option" where
  "safertos_osAcquireMutex mutex k =
     map_option snd (xSemaphoreTake (handle mutex) portMAX_DELAY k)"

text \<open>Waits on one semaphore in sequence, one per timeout of the list, results in call order.\<close>

fun safertos_wait_each ::
  "safertos_OsSemaphore \<Rightarrow> systime_t list \<Rightarrow> safertos_kernel \<Rightarrow>
   (bool list \<times> safertos_kernel) option" where
  "safertos_wait_each semaphore [] k = Some ([], k)"
| "safertos_wait_each semaphore (t # ts) k =
     (case safertos_osWaitForSemaphore semaphore t k of
        None \<Rightarrow> None
      | Some (r, k1) \<Rightarrow>
          (case safertos_wait_each semaphore ts k1 of
             None \<Rightarrow> None
           | Some (rs, k2) \<Rightarrow> Some (r # rs, k2)))"

text \<open>
  The state of an event of this port in the kernel: its handle names a binary semaphore,
  which holds at most one unit.
\<close>

definition safertos_event_count :: "safertos_OsEvent \<Rightarrow> safertos_kernel \<Rightarrow> nat option" where
  "safertos_event_count event k =
     (case x_queues k (handle event) of
        None \<Rightarrow> None
      | Some q \<Rightarrow> if sem_max q = 1 \<and> sem_count q \<le> 1 then Some (sem_count q) else None)"


section \<open>Zephyr port\<close>

subsection \<open>The Zephyr kernel\<close>

text \<open>
  Modelled from the spec: the Zephyr kernel and \<^verbatim>\<open>os_port_zephyr.h\<close> are not among the
  sources. \<^verbatim>\<open>OsEvent\<close> is the kernel's \<^verbatim>\<open>struct k_sem\<close>, a counter with a limit;
  \<^verbatim>\<open>k_sem_init\<close> rejects a limit of 0 and an initial count above the limit;
  \<^verbatim>\<open>k_sem_give\<close> adds a unit unless the count is at the limit; \<^verbatim>\<open>k_sem_reset\<close>
  sets the count to 0; \<^verbatim>\<open>k_sem_take\<close> returns 0 when it took a unit and a negative
  error code otherwise.
  \<^verbatim>\<open>k_thread_create\<close> returns the address of the thread object it is given, and
  \<^verbatim>\<open>k_current_get\<close> the running thread, which the functions that ask for it take as
  the parameter \<open>current\<close>. The sentinels for a failed task creation and for the
  calling task are \<open>NULL\<close>, as in the SafeRTOS header.
\<close>

record k_sem =
  k_count :: nat
  k_limit :: nat

datatype k_timeout_t = K_NO_WAIT | K_FOREVER | K_MSEC "32 word"

definition k_sem_init :: "k_sem \<Rightarrow> 32 word \<Rightarrow> 32 word \<Rightarrow> int \<times> k_sem" where
  "k_sem_init sem initial_count limit =
     (if limit = 0 \<or> limit < initial_count then (- 22, sem)
      else (0, \<lparr>k_count = unat initial_count, k_limit = unat limit\<rparr>))"

definition k_sem_take :: "k_sem \<Rightarrow> k_timeout_t \<Rightarrow> (int \<times> k_sem) option" where
  "k_sem_take sem timeout =
     (if 0 < k_count sem then Some (0, sem\<lparr>k_count := k_count sem - 1\<rparr>)
      else (case timeout of
              K_NO_WAIT \<Rightarrow> Some (- 16, sem)
            | K_FOREVER \<Rightarrow> None
            | K_MSEC ms \<Rightarrow> Some (- 11, sem)))"

definition k_sem_give :: "k_sem \<Rightarrow> k_sem" where
  "k_sem_give sem = (if k_count sem < k_limit sem then sem\<lparr>k_count := k_count sem + 1\<rparr> else sem)"

definition k_thread_create ::
  "addr \<Rightarrow> addr \<Rightarrow> 32 word \<Rightarrow> addr \<Rightarrow> addr \<Rightarrow> 32 word \<Rightarrow> kernel_call list \<Rightarrow>
   addr \<times> kernel_call list" where
  "k_thread_create new_thread stk stack_size entry p1 prio calls =
     (new_thread, calls @ [K_thread_create new_thread stk stack_size entry p1 prio])"

definition k_thread_name_set :: "addr \<Rightarrow> string \<Rightarrow> kernel_call list \<Rightarrow> kernel_call list" where
  "k_thread_name_set tid name calls = calls @ [K_thread_name_set tid name]"

definition k_sched_lock :: "kernel_call list \<Rightarrow> kernel_call list" where
  "k_sched_lock calls = calls @ [K_sched_lock]"

definition k_sched_unlock :: "kernel_call list \<Rightarrow> kernel_call list" where
  "k_sched_unlock calls = calls @ [K_sched_unlock]"

definition k_thread_abort :: "addr \<Rightarrow> kernel_call list \<Rightarrow> kernel_call list" where
  "k_thread_abort tid calls = calls @ [K_thread_abort tid]"

definition zephyr_OS_INVALID_TASK_ID :: addr where
  "zephyr_OS_INVALID_TASK_ID = NULL"

definition zephyr_OS_SELF_TASK_ID :: addr where
  "zephyr_OS_SELF_TASK_ID = NULL"

subsection \<open>Task management and event objects\<close>

text \<open>\<^verbatim>\<open>CONFIG_NUM_PREEMPT_PRIORITIES\<close> is a build setting and a parameter here.\<close>

definition zephyr_OS_TASK_DEFAULT_PARAMS :: "32 word \<Rightarrow> OsTaskParameters" where
  "zephyr_OS_TASK_DEFAULT_PARAMS CONFIG_NUM_PREEMPT_PRIORITIES =
     \<lparr>tcb = NULL, stack = NULL, stackSize = 0, priority = CONFIG_NUM_PREEMPT_PRIORITIES - 1\<rparr>"

definition zephyr_osCreateTask ::
  "string \<Rightarrow> addr \<Rightarrow> addr \<Rightarrow> OsTaskParameters \<Rightarrow> kernel_call list \<Rightarrow>
   addr \<times> kernel_call list" where
  "zephyr_osCreateTask name taskCode arg params calls =
     (if tcb params \<noteq> NULL \<and> stack params \<noteq> NULL then
        (case k_thread_create (tcb params) (stack params) (stackSize params) taskCode arg
                (priority params) calls of
           (tid, calls1) \<Rightarrow>
             if tid \<noteq> zephyr_OS_INVALID_TASK_ID
             then (tid, k_thread_name_set tid name calls1)
             else (tid, calls1))
      else (zephyr_OS_INVALID_TASK_ID, calls))"

definition zephyr_osDeleteTask :: "addr \<Rightarrow> addr \<Rightarrow> kernel_call list \<Rightarrow> kernel_call list" where
  "zephyr_osDeleteTask current taskId calls =
     (let tid = (if taskId = zephyr_OS_SELF_TASK_ID then current else taskId)
      in k_thread_abort tid calls)"

definition zephyr_osSuspendAllTasks :: "kernel_call list \<Rightarrow> kernel_call list" where
  "zephyr_osSuspendAllTasks calls = k_sched_lock calls"

definition zephyr_osResumeAllTasks :: "kernel_call list \<Rightarrow> kernel_call list" where
  "zephyr_osResumeAllTasks calls = k_sched_unlock calls"

definition zephyr_osCreateEvent :: "k_sem \<Rightarrow> bool \<times> k_sem" where
  "zephyr_osCreateEvent event =
     (case k_sem_init event 0 1 of (err, event') \<Rightarrow>
        if err \<noteq> 0 then (False, event') else (True, event'))"

definition zephyr_osSetEvent :: "k_sem \<Rightarrow> k_sem" where
  "zephyr_osSetEvent event = k_sem_give event"

definition k_sem_reset :: "k_sem \<Rightarrow> k_sem" where
  "k_sem_reset sem = sem\<lparr>k_count := 0\<rparr>"

definition zephyr_osResetEvent :: "k_sem \<Rightarrow> k_sem" where
  "zephyr_osResetEvent event = k_sem_reset event"

definition zephyr_osWaitForEvent :: "k_sem \<Rightarrow> systime_t \<Rightarrow> (bool \<times> k_sem) option" where
  "zephyr_osWaitForEvent event timeout =
     (case (if timeout = 0 then k_sem_take event K_NO_WAIT
            else if timeout = INFINITE_DELAY then k_sem_take event K_FOREVER
            else k_sem_take event (K_MSEC timeout)) of
        None \<Rightarrow> None
      | Some (err, event') \<Rightarrow> if err \<noteq> 0 then Some (False, event') else Some (True, event'))"


section \<open>PX5 port\<close>

subsection \<open>The PX5 kernel\<close>

text \<open>
  Modelled from the spec: the PX5 kernel and \<^verbatim>\<open>os_port_px5.h\<close> are not among the
  sources. \<^verbatim>\<open>OsSemaphore\<close> is the kernel's POSIX semaphore, a counter without a
  capacity of its own: \<^verbatim>\<open>px5_sem_init(sem, pshared, value)\<close> sets the counter to
  \<open>value\<close>, and \<^verbatim>\<open>px5_sem_post\<close> adds a unit unless the counter is at the kernel-wide
  maximum \<open>vmax\<close>, a constant of the kernel and a parameter here. \<^verbatim>\<open>px5_sem_wait\<close> on
  an empty semaphore waits without bound, \<^verbatim>\<open>px5_sem_timedwait\<close> gives up once the
  ticks have elapsed. The sentinel \<^verbatim>\<open>OS_SELF_TASK_ID\<close> is 0 and the conversion macro
  \<^verbatim>\<open>OS_MS_TO_SYSTICKS\<close> the identity, as in the two headers that are among the sources.
\<close>

datatype px5_status = PX5_SUCCESS | PX5_ERROR

record px5_sem_t =
  px5_value :: nat

definition px5_sem_init :: "nat \<Rightarrow> px5_sem_t \<Rightarrow> int \<Rightarrow> 32 word \<Rightarrow> px5_status \<times> px5_sem_t" where
  "px5_sem_init vmax sem pshared val =
     (if vmax < unat val then (PX5_ERROR, sem)
      else (PX5_SUCCESS, sem\<lparr>px5_value := unat val\<rparr>))"

definition px5_sem_post :: "nat \<Rightarrow> px5_sem_t \<Rightarrow> px5_status \<times> px5_sem_t" where
  "px5_sem_post vmax sem =
     (if px5_value sem < vmax then (PX5_SUCCESS, sem\<lparr>px5_value := px5_value sem + 1\<rparr>)
      else (PX5_ERROR, sem))"

definition px5_sem_trywait :: "px5_sem_t \<Rightarrow> px5_status \<times> px5_sem_t" where
  "px5_sem_trywait sem =
     (if 0 < px5_value sem then (PX5_SUCCESS, sem\<lparr>px5_value := px5_value sem - 1\<rparr>)
      else (PX5_ERROR, sem))"

definition px5_sem_wait :: "px5_sem_t \<Rightarrow> (px5_status \<times> px5_sem_t) option" where
  "px5_sem_wait sem =
     (if 0 < px5_value sem then Some (PX5_SUCCESS, sem\<lparr>px5_value := px5_value sem - 1\<rparr>)
      else None)"

definition px5_sem_timedwait :: "px5_sem_t \<Rightarrow> 32 word \<Rightarrow> px5_status \<times> px5_sem_t" where
  "px5_sem_timedwait sem ticks =
     (if 0 < px5_value sem then (PX5_SUCCESS, sem\<lparr>px5_value := px5_value sem - 1\<rparr>)
      else (PX5_ERROR, sem))"

definition px5_OS_SELF_TASK_ID :: addr where
  "px5_OS_SELF_TASK_ID = 0"

subsection \<open>Task deletion and scheduler suspension\<close>

definition px5_osDeleteTask :: "addr \<Rightarrow> kernel_call list \<Rightarrow> kernel_call list" where
  "px5_osDeleteTask taskId calls =
     (if taskId = px5_OS_SELF_TASK_ID then calls @ [Px5_pthread_exit]
      else calls @ [Pthread_cancel taskId])"

text \<open>\<^verbatim>\<open>osSuspendAllTasks\<close> and \<^verbatim>\<open>osResumeAllTasks\<close> have an empty body in this port.\<close>

definition px5_osSuspendAllTasks :: "kernel_call list \<Rightarrow> kernel_call list" where
  "px5_osSuspendAllTasks calls = calls"

definition px5_osResumeAllTasks :: "kernel_call list \<Rightarrow> kernel_call list" where
  "px5_osResumeAllTasks calls = calls"

subsection \<open>Semaphore objects\<close>

definition px5_osCreateSemaphore ::
  "nat \<Rightarrow> px5_sem_t \<Rightarrow> uint_t \<Rightarrow> bool \<times> px5_sem_t" where
  "px5_osCreateSemaphore vmax semaphore count =
     (case px5_sem_init vmax semaphore 0 count of (ret, semaphore') \<Rightarrow>
        if ret = PX5_SUCCESS then (True, semaphore') else (False, semaphore'))"

definition px5_osWaitForSemaphore :: "px5_sem_t \<Rightarrow> systime_t \<Rightarrow> (bool \<times> px5_sem_t) option" where
  "px5_osWaitForSemaphore semaphore timeout =
     (case (if timeout = 0 then Some (px5_sem_trywait semaphore)
            else if timeout = INFINITE_DELAY then px5_sem_wait semaphore
            else Some (px5_sem_timedwait semaphore (OS_MS_TO_SYSTICKS timeout))) of
        None \<Rightarrow> None
      | Some (ret, semaphore') \<Rightarrow>
          if ret = PX5_SUCCESS then Some (True, semaphore') else Some (False, semaphore'))"

definition px5_osReleaseSemaphore :: "nat \<Rightarrow> px5_sem_t \<Rightarrow> px5_sem_t" where
  "px5_osReleaseSemaphore vmax semaphore = snd (px5_sem_post vmax semaphore)"

subsection \<open>Event objects\<close>

text \<open>\<^verbatim>\<open>OsEvent\<close> is the kernel's semaphore as well, created with value 0.\<close>

definition px5_osCreateEvent :: "nat \<Rightarrow> px5_sem_t \<Rightarrow> bool \<times> px5_sem_t" where
  "px5_osCreateEvent vmax event =
     (case px5_sem_init vmax event 0 0 of (ret, event') \<Rightarrow>
        if ret = PX5_SUCCESS then (True, event') else (False, event'))"

definition px5_osSetEvent :: "nat \<Rightarrow> px5_sem_t \<Rightarrow> px5_sem_t" where
  "px5_osSetEvent vmax event = snd (px5_sem_post vmax event)"

text \<open>
  The loop \<^verbatim>\<open>do { ret = px5_sem_trywait(event); } while(ret == PX5_SUCCESS);\<close> of
  \<^verbatim>\<open>osResetEvent\<close> and \<^verbatim>\<open>osWaitForEvent\<close>.
\<close>

function px5_drain :: "px5_sem_t \<Rightarrow> px5_sem_t" where
  "px5_drain event =
     (case px5_sem_trywait event of (ret, event') \<Rightarrow>
        if ret = PX5_SUCCESS then px5_drain event' else event')"
  by pat_completeness auto
termination
  by (relation "measure px5_value") (auto simp: px5_sem_trywait_def split: if_splits)

definition px5_osResetEvent :: "px5_sem_t \<Rightarrow> px5_sem_t" where
  "px5_osResetEvent event = px5_drain event"

definition px5_osWaitForEvent :: "px5_sem_t \<Rightarrow> systime_t \<Rightarrow> (bool \<times> px5_sem_t) option" where
  "px5_osWaitForEvent event timeout =
     (case (if timeout = 0 then Some (px5_sem_trywait event)
            else if timeout = INFINITE_DELAY then px5_sem_wait event
            else Some (px5_sem_timedwait event (OS_MS_TO_SYSTICKS timeout))) of
        None \<Rightarrow> None
      | Some (ret, event') \<Rightarrow>
          if ret = PX5_SUCCESS then Some (True, px5_drain event') else Some (False, event'))"

text \<open>Waits on one semaphore in sequence, one per timeout of the list, results in call order.\<close>

fun px5_wait_each :: "px5_sem_t \<Rightarrow> systime_t list \<Rightarrow> (bool list \<times> px5_sem_t) option" where
  "px5_wait_each semaphore [] = Some ([], semaphore)"
| "px5_wait_each semaphore (t # ts) =
     (case px5_osWaitForSemaphore semaphore t of
        None \<Rightarrow> None
      | Some (r, semaphore1) \<Rightarrow>
          (case px5_wait_each semaphore1 ts of
             None \<Rightarrow> None
           | Some (rs, semaphore2) \<Rightarrow> Some (r # rs, semaphore2)))"


section \<open>States after kernel initialisation\<close>

text \<open>
  The state \<^verbatim>\<open>osInitKernel\<close> of the CMX-RTX port leaves behind: the allocation table
  cleared, no kernel semaphore, the scheduler not started. \<open>n\<close> is
  \<^verbatim>\<open>OS_MAX_SEMAPHORES\<close>, and the kernel is configured for as many semaphores.
\<close>

definition cmx_initial :: "nat \<Rightarrow> cmx_state" where
  "cmx_initial n =
     \<lparr>semaphoreTable = replicate n False, k_semaphores = Map.empty,
      k_max_semaphores = n, k_os_started = False, k_calls = []\<rparr>"

text \<open>
  A SafeRTOS kernel after \<^verbatim>\<open>xInitializeScheduler\<close>, before the scheduler starts: no
  semaphore, no task. \<open>full\<close> says whether this kernel creates binary semaphores
  available, \<open>ov\<close> is \<^verbatim>\<open>portQUEUE_OVERHEAD_BYTES\<close>.
\<close>

definition safertos_initial :: "bool \<Rightarrow> 32 word \<Rightarrow> safertos_kernel" where
  "safertos_initial full ov =
     \<lparr>x_queues = Map.empty, x_binary_created_full = full, x_queue_overhead = ov,
      x_scheduler_started = False, x_tasks = [], x_calls = []\<rparr>"

text \<open>
  \<^verbatim>\<open>osStartKernel\<close> of the two ports starts the scheduler (\<^verbatim>\<open>K_OS_Start\<close>,
  \<^verbatim>\<open>xTaskStartScheduler\<close>); of the kernel's state only the fact that it has started
  is kept.
\<close>

definition cmx_osStartKernel :: "cmx_state \<Rightarrow> cmx_state" where
  "cmx_osStartKernel s = s\<lparr>k_os_started := True\<rparr>"

definition safertos_osStartKernel :: "safertos_kernel \<Rightarrow> safertos_kernel" where
  "safertos_osStartKernel k = k\<lparr>x_scheduler_started := True\<rparr>"


section \<open>Properties of the semaphore identifier allocator\<close>

declare alloc_loop.simps [simp del]

lemma alloc_loop_found: "ident \<noteq> OS_INVALID_SEMAPHORE_ID \<Longrightarrow> alloc_loop i ident tbl = (ident, tbl)"
  by (simp add: alloc_loop.simps)

lemma unat_index: "j < 256 \<Longrightarrow> unat (word_of_nat j :: 8 word) = j"
  by (simp add: unat_of_nat)

lemma id_of_index: "j < 255 \<Longrightarrow> (word_of_nat j :: 8 word) \<noteq> OS_INVALID_SEMAPHORE_ID"
proof
  assume j: "j < 255" and eq: "(word_of_nat j :: 8 word) = OS_INVALID_SEMAPHORE_ID"
  have "unat (word_of_nat j :: 8 word) = j" using j by (simp add: unat_index)
  moreover have "unat OS_INVALID_SEMAPHORE_ID = 255" by (simp add: OS_INVALID_SEMAPHORE_ID_def)
  ultimately show False using j eq by simp
qed

lemma alloc_loop_full:
  "\<forall>j. i \<le> j \<and> j < length tbl \<longrightarrow> tbl ! j \<Longrightarrow>
   alloc_loop i OS_INVALID_SEMAPHORE_ID tbl = (OS_INVALID_SEMAPHORE_ID, tbl)"
proof (induction "length tbl - i" arbitrary: i)
  case 0
  then show ?case by (simp add: alloc_loop.simps)
next
  case (Suc d)
  then have "i < length tbl" "tbl ! i" by auto
  moreover have "alloc_loop (Suc i) OS_INVALID_SEMAPHORE_ID tbl = (OS_INVALID_SEMAPHORE_ID, tbl)"
    using Suc by (intro Suc.hyps(1)) auto
  ultimately show ?case by (subst alloc_loop.simps) simp
qed

lemma alloc_loop_first_free:
  assumes "i \<le> j" "j < length tbl" "length tbl \<le> 255" "\<not> tbl ! j"
    and "\<forall>k. i \<le> k \<and> k < j \<longrightarrow> tbl ! k"
  shows "alloc_loop i OS_INVALID_SEMAPHORE_ID tbl = (word_of_nat j, tbl[j := True])"
  using assms
proof (induction "j - i" arbitrary: i)
  case 0
  then have "i = j" by simp
  moreover have "(word_of_nat j :: 8 word) \<noteq> OS_INVALID_SEMAPHORE_ID"
    using 0 by (intro id_of_index) simp
  ultimately show ?case using 0
    by (subst alloc_loop.simps) (simp add: alloc_loop_found)
next
  case (Suc d)
  then have "i < j" "tbl ! i" "i < length tbl" by auto
  moreover have "alloc_loop (Suc i) OS_INVALID_SEMAPHORE_ID tbl = (word_of_nat j, tbl[j := True])"
    using Suc by (intro Suc.hyps(1)) auto
  ultimately show ?case by (subst alloc_loop.simps) simp
qed

lemma used_below_zero: "used_below n 0 = replicate n False"
  by (simp add: used_below_def map_replicate_const)

lemma used_below_mark: "k < n \<Longrightarrow> (used_below n k)[k := True] = used_below n (Suc k)"
proof (rule nth_equalityI)
  show "length ((used_below n k)[k := True]) = length (used_below n (Suc k))"
    by (simp add: used_below_def)
next
  fix i assume "i < length ((used_below n k)[k := True])"
  then have i: "i < n" by (simp add: used_below_def)
  show "(used_below n k)[k := True] ! i = used_below n (Suc k) ! i"
  proof (cases "i = k")
    case True
    then show ?thesis using i by (simp add: used_below_def)
  next
    case False
    then show ?thesis using i by (simp add: used_below_def less_Suc_eq)
  qed
qed

lemma osAllocateSemaphoreId_used_below:
  assumes "k < n" "n \<le> 255"
  shows "osAllocateSemaphoreId (used_below n k) = (word_of_nat k, used_below n (Suc k))"
proof -
  have "alloc_loop 0 OS_INVALID_SEMAPHORE_ID (used_below n k)
      = (word_of_nat k, (used_below n k)[k := True])"
    using assms by (intro alloc_loop_first_free) (auto simp: used_below_def)
  then show ?thesis using assms by (simp add: osAllocateSemaphoreId_def used_below_mark)
qed

lemma osAllocateSemaphoreId_exhausted:
  "osAllocateSemaphoreId (used_below n n) = (OS_INVALID_SEMAPHORE_ID, used_below n n)"
  unfolding osAllocateSemaphoreId_def
  by (rule alloc_loop_full) (simp add: used_below_def)

lemma alloc_many_used_below:
  "k + m \<le> n \<Longrightarrow> n \<le> 255 \<Longrightarrow>
   alloc_many m (used_below n k) = (map word_of_nat [k..<k + m], used_below n (k + m))"
proof (induction m arbitrary: k)
  case 0
  then show ?case by simp
next
  case (Suc m)
  then have "k < n" by simp
  then have step: "osAllocateSemaphoreId (used_below n k) = (word_of_nat k, used_below n (Suc k))"
    using Suc.prems by (intro osAllocateSemaphoreId_used_below) auto
  have "alloc_many m (used_below n (Suc k))
      = (map word_of_nat [Suc k..<Suc k + m], used_below n (Suc k + m))"
    using Suc.prems by (intro Suc.IH) auto
  moreover have "[k..<k + Suc m] = k # [Suc k..<Suc k + m]"
    by (simp add: upt_conv_Cons)
  ultimately show ?case using step by (simp del: upt_Suc)
qed

lemma ids_distinct: "n \<le> 255 \<Longrightarrow> distinct (map (word_of_nat :: nat \<Rightarrow> 8 word) [0..<n])"
proof -
  assume n: "n \<le> 255"
  have "inj_on (word_of_nat :: nat \<Rightarrow> 8 word) (set [0..<n])"
  proof (rule inj_onI)
    fix x y assume "x \<in> set [0..<n]" "y \<in> set [0..<n]"
      and eq: "(word_of_nat x :: 8 word) = word_of_nat y"
    then have "x < 256" "y < 256" using n by auto
    then have "unat (word_of_nat x :: 8 word) = x" "unat (word_of_nat y :: 8 word) = y"
      by (simp_all add: unat_index)
    then show "x = y" using eq by metis
  qed
  then show ?thesis by (simp add: distinct_map)
qed

lemma osAllocateSemaphoreId_cases:
  assumes "length tbl \<le> 255"
  shows "(\<forall>j < length tbl. tbl ! j) \<and> osAllocateSemaphoreId tbl = (OS_INVALID_SEMAPHORE_ID, tbl)
       \<or> (\<exists>j < length tbl. \<not> tbl ! j \<and> (\<forall>k < j. tbl ! k)
            \<and> osAllocateSemaphoreId tbl = (word_of_nat j, tbl[j := True]))"
proof (cases "\<forall>j < length tbl. tbl ! j")
  case True
  then have "alloc_loop 0 OS_INVALID_SEMAPHORE_ID tbl = (OS_INVALID_SEMAPHORE_ID, tbl)"
    by (intro alloc_loop_full) simp
  then show ?thesis using True by (simp add: osAllocateSemaphoreId_def)
next
  case False
  define j where "j = (LEAST j. j < length tbl \<and> \<not> tbl ! j)"
  have ex: "\<exists>j. j < length tbl \<and> \<not> tbl ! j" using False by auto
  have j: "j < length tbl \<and> \<not> tbl ! j" unfolding j_def by (rule LeastI_ex [OF ex])
  have least: "\<And>k. k < j \<Longrightarrow> tbl ! k"
  proof -
    fix k assume kj: "k < j"
    then have "\<not> (k < length tbl \<and> \<not> tbl ! k)" unfolding j_def by (rule not_less_Least)
    then show "tbl ! k" using kj j by simp
  qed
  have "alloc_loop 0 OS_INVALID_SEMAPHORE_ID tbl = (word_of_nat j, tbl[j := True])"
    using j least assms by (intro alloc_loop_first_free) auto
  then show ?thesis using j least by (auto simp: osAllocateSemaphoreId_def)
qed


text \<open>
  C3. Let \<open>N\<close> be the size of the allocation table, between 1 and 255 as the header
  requires. Starting from the table in which every entry is free, \<open>N\<close> consecutive calls
  of \<^verbatim>\<open>osAllocateSemaphoreId\<close> return \<open>N\<close> pairwise distinct identifiers, each below
  \<open>N\<close>, and the next call returns \<^verbatim>\<open>OS_INVALID_SEMAPHORE_ID\<close>. In every state of the
  table, an identifier returned by \<^verbatim>\<open>osAllocateSemaphoreId\<close> names an entry that was free
  before the call and is the only entry the call marks as used. After
  \<^verbatim>\<open>osFreeSemaphoreId\<close> of an identifier in range, the next
  \<^verbatim>\<open>osAllocateSemaphoreId\<close> succeeds.
\<close>

theorem semaphore_id_allocator:
  assumes "1 \<le> length tbl" and "length tbl \<le> 255"
  shows "(case alloc_many (length tbl) (replicate (length tbl) False) of (ids, tbl') \<Rightarrow>
            length ids = length tbl \<and> distinct ids \<and>
            (\<forall>ident \<in> set ids. unat ident < length tbl) \<and>
            fst (osAllocateSemaphoreId tbl') = OS_INVALID_SEMAPHORE_ID)
       \<and> (case osAllocateSemaphoreId tbl of (ident, tbl') \<Rightarrow>
            ident \<noteq> OS_INVALID_SEMAPHORE_ID \<longrightarrow>
              unat ident < length tbl \<and> \<not> tbl ! unat ident \<and> tbl' = tbl[unat ident := True])
       \<and> (\<forall>ident. unat ident < length tbl \<longrightarrow>
            fst (osAllocateSemaphoreId (osFreeSemaphoreId ident tbl)) \<noteq> OS_INVALID_SEMAPHORE_ID)"
proof (intro conjI)
  let ?n = "length tbl"
  have run: "alloc_many ?n (used_below ?n 0) = (map word_of_nat [0..<0 + ?n], used_below ?n (0 + ?n))"
    using assms by (intro alloc_many_used_below) auto
  have below: "\<forall>ident \<in> set (map (word_of_nat :: nat \<Rightarrow> 8 word) [0..<?n]). unat ident < ?n"
    using assms by (auto simp: unat_index)
  show "case alloc_many ?n (replicate ?n False) of (ids, tbl') \<Rightarrow>
          length ids = ?n \<and> distinct ids \<and> (\<forall>ident \<in> set ids. unat ident < ?n) \<and>
          fst (osAllocateSemaphoreId tbl') = OS_INVALID_SEMAPHORE_ID"
    using run below assms
    by (simp add: used_below_zero ids_distinct osAllocateSemaphoreId_exhausted)
next
  show "case osAllocateSemaphoreId tbl of (ident, tbl') \<Rightarrow>
          ident \<noteq> OS_INVALID_SEMAPHORE_ID \<longrightarrow>
            unat ident < length tbl \<and> \<not> tbl ! unat ident \<and> tbl' = tbl[unat ident := True]"
    using osAllocateSemaphoreId_cases [OF assms(2)]
  proof (elim disjE conjE exE)
    assume "osAllocateSemaphoreId tbl = (OS_INVALID_SEMAPHORE_ID, tbl)"
    then show ?thesis by simp
  next
    fix j
    assume j: "j < length tbl" "\<not> tbl ! j"
      and res: "osAllocateSemaphoreId tbl = (word_of_nat j, tbl[j := True])"
    have "unat (word_of_nat j :: 8 word) = j" using j assms by (intro unat_index) simp
    then show ?thesis using j res by simp
  qed
next
  show "\<forall>ident. unat ident < length tbl \<longrightarrow>
          fst (osAllocateSemaphoreId (osFreeSemaphoreId ident tbl)) \<noteq> OS_INVALID_SEMAPHORE_ID"
  proof (intro allI impI)
    fix ident :: "8 word"
    assume r: "unat ident < length tbl"
    let ?t = "osFreeSemaphoreId ident tbl"
    have len: "length ?t = length tbl" by (simp add: osFreeSemaphoreId_def)
    have free: "\<not> ?t ! unat ident" using r by (simp add: osFreeSemaphoreId_def)
    have "length ?t \<le> 255" using assms len by simp
    from osAllocateSemaphoreId_cases [OF this]
    show "fst (osAllocateSemaphoreId ?t) \<noteq> OS_INVALID_SEMAPHORE_ID"
    proof (elim disjE conjE exE)
      assume "\<forall>j < length ?t. ?t ! j"
      then show ?thesis using r len free by auto
    next
      fix j
      assume "j < length ?t" and "osAllocateSemaphoreId ?t = (word_of_nat j, ?t[j := True])"
      then show ?thesis using assms len by (simp add: id_of_index)
    qed
  qed
qed

theorem semaphore_id_allocator_witness:
  "1 \<le> length [True, False, True] \<and> length [True, False, True] \<le> 255
   \<and> alloc_many 3 [False, False, False] = ([0, 1, 2], [True, True, True])
   \<and> osAllocateSemaphoreId [True, True, True] = (OS_INVALID_SEMAPHORE_ID, [True, True, True])
   \<and> osAllocateSemaphoreId [True, False, True] = (1, [True, True, True])
   \<and> osAllocateSemaphoreId (osFreeSemaphoreId 2 [True, False, True]) = (1, [True, True, False])
   \<and> osAllocateSemaphoreId (osFreeSemaphoreId 0 [True, True, True]) = (0, [True, True, True])"
  using semaphore_id_allocator [of "[True, False, True]"]
  by (simp add: alloc_loop.simps osAllocateSemaphoreId_def osFreeSemaphoreId_def
        OS_INVALID_SEMAPHORE_ID_def numeral_3_eq_3)


section \<open>Task creation\<close>

lemma safertos_osCreateTask_rejects:
  "tcb params = NULL \<or> stack params = NULL \<Longrightarrow>
   safertos_osCreateTask name taskCode arg params k = (safertos_OS_INVALID_TASK_ID, k)"
  by (auto simp: safertos_osCreateTask_def)

lemma zephyr_osCreateTask_rejects:
  "tcb params = NULL \<or> stack params = NULL \<Longrightarrow>
   zephyr_osCreateTask name taskCode arg params calls = (zephyr_OS_INVALID_TASK_ID, calls)"
  by (auto simp: zephyr_osCreateTask_def)

lemma xTaskCreate_calls:
  "x_calls (snd (snd (xTaskCreate taskParams k))) = x_calls k @ [XTaskCreate taskParams]"
  by (simp add: xTaskCreate_def x_request_def Let_def)

text \<open>
  C7. On the SafeRTOS and Zephyr ports, when exactly one of the control block and the
  stack of the parameter record is \<open>NULL\<close>, \<^verbatim>\<open>osCreateTask\<close> returns
  \<^verbatim>\<open>OS_INVALID_TASK_ID\<close> and the kernel is left as it was: no task is created and no
  kernel operation is requested.
\<close>

theorem partial_static_parameters_rejected:
  assumes "(tcb params = NULL) \<noteq> (stack params = NULL)"
  shows "safertos_osCreateTask name taskCode arg params k = (safertos_OS_INVALID_TASK_ID, k)
       \<and> zephyr_osCreateTask name taskCode arg params calls = (zephyr_OS_INVALID_TASK_ID, calls)"
proof -
  from assms have "tcb params = NULL \<or> stack params = NULL" by auto
  then show ?thesis
    by (simp add: safertos_osCreateTask_rejects zephyr_osCreateTask_rejects)
qed

theorem partial_static_parameters_rejected_witness:
  "(tcb \<lparr>tcb = 0x20000000, stack = NULL, stackSize = 256, priority = 1\<rparr> = NULL)
     \<noteq> (stack \<lparr>tcb = 0x20000000, stack = NULL, stackSize = 256, priority = 1\<rparr> = NULL)
   \<and> safertos_osCreateTask ''worker'' 0x08000100 NULL
        \<lparr>tcb = 0x20000000, stack = NULL, stackSize = 256, priority = 1\<rparr>
        (safertos_initial True 64)
      = (safertos_OS_INVALID_TASK_ID, safertos_initial True 64)
   \<and> zephyr_osCreateTask ''worker'' 0x08000100 NULL
        \<lparr>tcb = 0x20000000, stack = NULL, stackSize = 256, priority = 1\<rparr> []
      = (zephyr_OS_INVALID_TASK_ID, [])"
  using partial_static_parameters_rejected
    [of "\<lparr>tcb = 0x20000000, stack = NULL, stackSize = 256, priority = 1\<rparr>"
        "''worker''" "0x08000100" NULL "safertos_initial True 64" "[]"]
  by (simp add: NULL_def)

text \<open>
  C10. On the SafeRTOS and Zephyr ports \<^verbatim>\<open>osCreateTask\<close> has no dynamic allocation
  path: whenever the control block or the stack of the parameter record is \<open>NULL\<close>, it
  returns \<^verbatim>\<open>OS_INVALID_TASK_ID\<close> and requests nothing from the kernel. This holds for
  the default record \<^verbatim>\<open>OS_TASK_DEFAULT_PARAMS\<close> of either port, whose two pointers are
  \<open>NULL\<close>. Conversely, a call that reaches the kernel's task creation operation has a
  control block and a stack.
\<close>

theorem no_dynamic_task_allocation:
  "(tcb params = NULL \<or> stack params = NULL \<longrightarrow>
      safertos_osCreateTask name taskCode arg params k = (safertos_OS_INVALID_TASK_ID, k)
      \<and> zephyr_osCreateTask name taskCode arg params calls = (zephyr_OS_INVALID_TASK_ID, calls))
   \<and> safertos_osCreateTask name taskCode arg (safertos_OS_TASK_DEFAULT_PARAMS idle) k
       = (safertos_OS_INVALID_TASK_ID, k)
   \<and> zephyr_osCreateTask name taskCode arg (zephyr_OS_TASK_DEFAULT_PARAMS prios) calls
       = (zephyr_OS_INVALID_TASK_ID, calls)
   \<and> (x_calls (snd (safertos_osCreateTask name taskCode arg params k)) \<noteq> x_calls k \<longrightarrow>
        tcb params \<noteq> NULL \<and> stack params \<noteq> NULL)
   \<and> (snd (zephyr_osCreateTask name taskCode arg params calls) \<noteq> calls \<longrightarrow>
        tcb params \<noteq> NULL \<and> stack params \<noteq> NULL)"
proof (intro conjI impI)
  assume "tcb params = NULL \<or> stack params = NULL"
  then show "safertos_osCreateTask name taskCode arg params k = (safertos_OS_INVALID_TASK_ID, k)"
    and "zephyr_osCreateTask name taskCode arg params calls = (zephyr_OS_INVALID_TASK_ID, calls)"
    by (simp_all add: safertos_osCreateTask_rejects zephyr_osCreateTask_rejects)
next
  show "safertos_osCreateTask name taskCode arg (safertos_OS_TASK_DEFAULT_PARAMS idle) k
       = (safertos_OS_INVALID_TASK_ID, k)"
    by (rule safertos_osCreateTask_rejects) (simp add: safertos_OS_TASK_DEFAULT_PARAMS_def)
next
  show "zephyr_osCreateTask name taskCode arg (zephyr_OS_TASK_DEFAULT_PARAMS prios) calls
       = (zephyr_OS_INVALID_TASK_ID, calls)"
    by (rule zephyr_osCreateTask_rejects) (simp add: zephyr_OS_TASK_DEFAULT_PARAMS_def)
next
  assume changed: "x_calls (snd (safertos_osCreateTask name taskCode arg params k)) \<noteq> x_calls k"
  show "tcb params \<noteq> NULL" "stack params \<noteq> NULL"
    using changed safertos_osCreateTask_rejects [of params name taskCode arg k] by auto
next
  assume changed: "snd (zephyr_osCreateTask name taskCode arg params calls) \<noteq> calls"
  show "tcb params \<noteq> NULL" "stack params \<noteq> NULL"
    using changed zephyr_osCreateTask_rejects [of params name taskCode arg calls] by auto
qed

theorem no_dynamic_task_allocation_witness:
  "safertos_osCreateTask ''worker'' 0x08000100 NULL
        \<lparr>tcb = NULL, stack = 0x20001000, stackSize = 256, priority = 1\<rparr>
        (safertos_initial False 64)
      = (safertos_OS_INVALID_TASK_ID, safertos_initial False 64)
   \<and> zephyr_osCreateTask ''worker'' 0x08000100 NULL
        \<lparr>tcb = NULL, stack = 0x20001000, stackSize = 256, priority = 1\<rparr> []
      = (zephyr_OS_INVALID_TASK_ID, [])
   \<and> safertos_osCreateTask ''worker'' 0x08000100 NULL (safertos_OS_TASK_DEFAULT_PARAMS 0)
        (safertos_initial False 64)
      = (safertos_OS_INVALID_TASK_ID, safertos_initial False 64)
   \<and> zephyr_osCreateTask ''worker'' 0x08000100 NULL (zephyr_OS_TASK_DEFAULT_PARAMS 16) []
      = (zephyr_OS_INVALID_TASK_ID, [])
   \<and> x_calls (snd (safertos_osCreateTask ''worker'' 0x08000100 NULL
        \<lparr>tcb = 0x20000000, stack = 0x20001000, stackSize = 256, priority = 1\<rparr>
        (safertos_initial False 64))) \<noteq> x_calls (safertos_initial False 64)
   \<and> snd (zephyr_osCreateTask ''worker'' 0x08000100 NULL
        \<lparr>tcb = 0x20000000, stack = 0x20001000, stackSize = 256, priority = 1\<rparr> []) \<noteq> []"
  using no_dynamic_task_allocation
    [of "\<lparr>tcb = NULL, stack = 0x20001000, stackSize = 256, priority = 1\<rparr>"
        "''worker''" "0x08000100" NULL "safertos_initial False 64" "[]" 0 16]
  by (simp add: NULL_def safertos_osCreateTask_def zephyr_osCreateTask_def xTaskCreate_def
        x_request_def safertos_initial_def k_thread_create_def k_thread_name_set_def
        zephyr_OS_INVALID_TASK_ID_def safertos_OS_TASK_DEFAULT_PARAMS_def
        zephyr_OS_TASK_DEFAULT_PARAMS_def safertos_OS_INVALID_TASK_ID_def Let_def)


section \<open>Task deletion\<close>

text \<open>
  C8, as the ports implement it. On the CMX-RTX and PX5 ports \<^verbatim>\<open>osDeleteTask\<close> requests
  the kernel's operation that ends the calling task (\<^verbatim>\<open>K_Task_End\<close>,
  \<^verbatim>\<open>px5_pthread_exit\<close>) when the identifier is \<^verbatim>\<open>OS_SELF_TASK_ID\<close>, and the
  operation that deletes a task by its handle (\<^verbatim>\<open>K_Task_Delete\<close>,
  \<^verbatim>\<open>pthread_cancel\<close>) for any other identifier. On the SafeRTOS port every
  identifier, \<^verbatim>\<open>OS_SELF_TASK_ID\<close> included, is passed unchanged to the delete-by-handle
  operation \<^verbatim>\<open>xTaskDelete\<close>, and on the Zephyr port every identifier ends in the
  delete-by-handle operation \<^verbatim>\<open>k_thread_abort\<close>, \<^verbatim>\<open>OS_SELF_TASK_ID\<close> replaced by
  the handle of the running thread. In each case this one request is the whole effect.
\<close>

theorem delete_task_routing:
  "(taskId = cmx_OS_SELF_TASK_ID \<longrightarrow>
      cmx_osDeleteTask taskId s = s\<lparr>k_calls := k_calls s @ [K_Task_End]\<rparr>)
   \<and> (taskId \<noteq> cmx_OS_SELF_TASK_ID \<longrightarrow>
      cmx_osDeleteTask taskId s = s\<lparr>k_calls := k_calls s @ [K_Task_Delete taskId]\<rparr>)
   \<and> (thread = px5_OS_SELF_TASK_ID \<longrightarrow>
      px5_osDeleteTask thread calls = calls @ [Px5_pthread_exit])
   \<and> (thread \<noteq> px5_OS_SELF_TASK_ID \<longrightarrow>
      px5_osDeleteTask thread calls = calls @ [Pthread_cancel thread])
   \<and> safertos_osDeleteTask h k = k\<lparr>x_calls := x_calls k @ [XTaskDelete h]\<rparr>
   \<and> (tid = zephyr_OS_SELF_TASK_ID \<longrightarrow>
      zephyr_osDeleteTask current tid zcalls = zcalls @ [K_thread_abort current])
   \<and> (tid \<noteq> zephyr_OS_SELF_TASK_ID \<longrightarrow>
      zephyr_osDeleteTask current tid zcalls = zcalls @ [K_thread_abort tid])"
  by (simp add: cmx_osDeleteTask_def cmx_request_def px5_osDeleteTask_def
        safertos_osDeleteTask_def xTaskDelete_def x_request_def zephyr_osDeleteTask_def
        k_thread_abort_def)

theorem delete_task_routing_witness:
  "k_calls (cmx_osDeleteTask 0 (cmx_initial 4)) = [K_Task_End]
   \<and> k_calls (cmx_osDeleteTask 3 (cmx_initial 4)) = [K_Task_Delete 3]
   \<and> px5_osDeleteTask 0 [] = [Px5_pthread_exit]
   \<and> px5_osDeleteTask 0x20000400 [] = [Pthread_cancel 0x20000400]
   \<and> x_calls (safertos_osDeleteTask 0x20000400 (safertos_initial True 64))
       = [XTaskDelete 0x20000400]
   \<and> zephyr_osDeleteTask 0x20000800 NULL [] = [K_thread_abort 0x20000800]
   \<and> zephyr_osDeleteTask 0x20000800 0x20000400 [] = [K_thread_abort 0x20000400]"
  using delete_task_routing
    [where taskId = 0 and s = "cmx_initial 4" and thread = 0 and calls = "[]"
       and h = "0x20000400" and k = "safertos_initial True 64"
       and tid = NULL and current = "0x20000800" and zcalls = "[]"]
    delete_task_routing
    [where taskId = 3 and s = "cmx_initial 4" and thread = "0x20000400" and calls = "[]"
       and h = "0x20000400" and k = "safertos_initial True 64"
       and tid = "0x20000400" and current = "0x20000800" and zcalls = "[]"]
  by (simp add: cmx_OS_SELF_TASK_ID_def px5_OS_SELF_TASK_ID_def cmx_initial_def
        safertos_initial_def zephyr_OS_SELF_TASK_ID_def NULL_def)

text \<open>
  The claim as it is worded fails on the SafeRTOS port: deleting \<^verbatim>\<open>OS_SELF_TASK_ID\<close>
  requests \<^verbatim>\<open>xTaskDelete(NULL)\<close>, a delete by handle, and no operation that ends the
  calling task.
\<close>

theorem delete_self_safertos_counterexample:
  "x_calls (safertos_osDeleteTask safertos_OS_SELF_TASK_ID (safertos_initial True 64))
     = [XTaskDelete NULL]
   \<and> \<not> is_exit_current_task (XTaskDelete NULL)
   \<and> is_delete_by_handle (XTaskDelete NULL)"
  by (simp add: safertos_osDeleteTask_def xTaskDelete_def x_request_def
        safertos_OS_SELF_TASK_ID_def safertos_initial_def)


section \<open>Suspending and resuming the scheduler\<close>

text \<open>
  C9, as the ports implement it. On the SafeRTOS port \<^verbatim>\<open>osSuspendAllTasks\<close> and
  \<^verbatim>\<open>osResumeAllTasks\<close> first ask the kernel whether the scheduler has started
  (\<^verbatim>\<open>xTaskIsSchedulerStarted\<close>, a query that changes nothing and is not among the
  recorded operations). While the scheduler has not started they leave the whole state
  unchanged and request no scheduler lock or unlock operation; once it has started they
  request \<^verbatim>\<open>vTaskSuspendScheduler\<close> and \<^verbatim>\<open>xTaskResumeScheduler\<close>. The CMX-RTX and
  Zephyr ports have no such check: they request the kernel's lock and unlock operations
  in every state. On the PX5 port both functions have an empty body and do nothing in any
  state.
\<close>

theorem suspend_resume_before_start:
  "(\<not> x_scheduler_started k \<longrightarrow>
      safertos_osSuspendAllTasks k = k \<and> safertos_osResumeAllTasks k = k
      \<and> filter is_scheduler_lock_call (x_calls (safertos_osSuspendAllTasks k))
          = filter is_scheduler_lock_call (x_calls k)
      \<and> filter is_scheduler_lock_call (x_calls (safertos_osResumeAllTasks k))
          = filter is_scheduler_lock_call (x_calls k))
   \<and> (x_scheduler_started k \<longrightarrow>
      safertos_osSuspendAllTasks k = k\<lparr>x_calls := x_calls k @ [VTaskSuspendScheduler]\<rparr>
      \<and> safertos_osResumeAllTasks k = k\<lparr>x_calls := x_calls k @ [XTaskResumeScheduler]\<rparr>)
   \<and> cmx_osSuspendAllTasks s = s\<lparr>k_calls := k_calls s @ [K_Task_Lock]\<rparr>
   \<and> cmx_osResumeAllTasks s = s\<lparr>k_calls := k_calls s @ [K_Task_Unlock]\<rparr>
   \<and> is_scheduler_lock_call K_Task_Lock \<and> is_scheduler_lock_call K_Task_Unlock
   \<and> zephyr_osSuspendAllTasks calls = calls @ [K_sched_lock]
   \<and> zephyr_osResumeAllTasks calls = calls @ [K_sched_unlock]
   \<and> is_scheduler_lock_call K_sched_lock \<and> is_scheduler_lock_call K_sched_unlock
   \<and> px5_osSuspendAllTasks calls = calls
   \<and> px5_osResumeAllTasks calls = calls"
  by (simp add: safertos_osSuspendAllTasks_def safertos_osResumeAllTasks_def
        xTaskIsSchedulerStarted_def vTaskSuspendScheduler_def xTaskResumeScheduler_def
        x_request_def cmx_osSuspendAllTasks_def cmx_osResumeAllTasks_def cmx_request_def
        zephyr_osSuspendAllTasks_def zephyr_osResumeAllTasks_def k_sched_lock_def
        k_sched_unlock_def px5_osSuspendAllTasks_def px5_osResumeAllTasks_def)

theorem suspend_resume_before_start_witness:
  "\<not> x_scheduler_started (safertos_initial True 64)
   \<and> safertos_osSuspendAllTasks (safertos_initial True 64) = safertos_initial True 64
   \<and> safertos_osResumeAllTasks (safertos_initial True 64) = safertos_initial True 64
   \<and> x_scheduler_started (safertos_osStartKernel (safertos_initial True 64))
   \<and> x_calls (safertos_osSuspendAllTasks (safertos_osStartKernel (safertos_initial True 64)))
       = [VTaskSuspendScheduler]
   \<and> x_calls (safertos_osResumeAllTasks (safertos_osStartKernel (safertos_initial True 64)))
       = [XTaskResumeScheduler]"
  using suspend_resume_before_start [of "safertos_initial True 64"]
    suspend_resume_before_start [of "safertos_osStartKernel (safertos_initial True 64)"]
  by (simp add: safertos_initial_def safertos_osStartKernel_def)

text \<open>
  The claim as it is worded fails on the CMX-RTX port: before the scheduler has started,
  \<^verbatim>\<open>osSuspendAllTasks\<close> requests \<^verbatim>\<open>K_Task_Lock\<close> and \<^verbatim>\<open>osResumeAllTasks\<close> requests
  \<^verbatim>\<open>K_Task_Unlock\<close>.
\<close>

theorem suspend_before_start_cmx_counterexample:
  "\<not> k_os_started (cmx_initial 4)
   \<and> k_calls (cmx_initial 4) = []
   \<and> k_calls (cmx_osSuspendAllTasks (cmx_initial 4)) = [K_Task_Lock]
   \<and> k_calls (cmx_osResumeAllTasks (cmx_initial 4)) = [K_Task_Unlock]
   \<and> is_scheduler_lock_call K_Task_Lock
   \<and> is_scheduler_lock_call K_Task_Unlock
   \<and> cmx_osSuspendAllTasks (cmx_initial 4) \<noteq> cmx_initial 4"
  by (simp add: cmx_osSuspendAllTasks_def cmx_osResumeAllTasks_def cmx_request_def
        cmx_initial_def)


section \<open>Event objects\<close>

declare cmx_drain.simps [simp del]

lemma cmx_same_count:
  "k_semaphores s sem = Some c \<Longrightarrow> s\<lparr>k_semaphores := (k_semaphores s)(sem \<mapsto> c)\<rparr> = s"
  by (simp add: fun_upd_idem)

lemma cmx_drain_missing:
  "k_semaphores s sem = None \<Longrightarrow> cmx_drain sem s = s"
  by (subst cmx_drain.simps) (simp add: K_Semaphore_Get_def)

lemma cmx_drain_count:
  "k_semaphores s sem = Some c \<Longrightarrow>
   cmx_drain sem s = s\<lparr>k_semaphores := (k_semaphores s)(sem \<mapsto> 0)\<rparr>"
proof (induction c arbitrary: s)
  case 0
  then show ?case
    by (subst cmx_drain.simps) (simp add: K_Semaphore_Get_def fun_upd_idem)
next
  case (Suc c)
  let ?s1 = "s\<lparr>k_semaphores := (k_semaphores s)(sem \<mapsto> c)\<rparr>"
  have "k_semaphores ?s1 sem = Some c" by simp
  then have "cmx_drain sem ?s1 = ?s1\<lparr>k_semaphores := (k_semaphores ?s1)(sem \<mapsto> 0)\<rparr>"
    by (rule Suc.IH)
  then show ?case using Suc.prems
    by (subst cmx_drain.simps) (simp add: K_Semaphore_Get_def)
qed

lemma cmx_drain_empties:
  "cmx_event_count event (cmx_drain (event_id event) s) \<in> {None, Some 0}"
  by (cases "k_semaphores s (event_id event)")
     (simp_all add: cmx_event_count_def cmx_drain_missing cmx_drain_count)

lemma cmx_wait_poll_fails:
  "cmx_event_count event s \<in> {None, Some 0} \<Longrightarrow>
   cmx_osWaitForEvent event 0 s = Some (False, s)"
  by (auto simp: cmx_osWaitForEvent_def cmx_event_count_def K_Semaphore_Get_def)

lemma cmx_wait_signaled:
  "cmx_event_count event s = Some (Suc c) \<Longrightarrow>
   cmx_osWaitForEvent event t s
     = Some (True, s\<lparr>k_semaphores := (k_semaphores s)(event_id event \<mapsto> 0)\<rparr>)"
  by (simp add: cmx_osWaitForEvent_def cmx_event_count_def K_Semaphore_Get_def
        K_Semaphore_Wait_def cmx_drain_count)

lemma cmx_set_count:
  "cmx_event_count event s = Some c \<Longrightarrow>
   cmx_osSetEvent event s = s\<lparr>k_semaphores := (k_semaphores s)(event_id event \<mapsto> Suc c)\<rparr>"
  by (simp add: cmx_osSetEvent_def cmx_event_count_def K_Semaphore_Post_def)

lemma cmx_set_missing:
  "cmx_event_count event s = None \<Longrightarrow> cmx_osSetEvent event s = s"
  by (simp add: cmx_osSetEvent_def cmx_event_count_def K_Semaphore_Post_def)

lemma cmx_sets_count:
  "cmx_event_count event s = Some c \<Longrightarrow>
   (cmx_osSetEvent event ^^ n) s
     = s\<lparr>k_semaphores := (k_semaphores s)(event_id event \<mapsto> c + n)\<rparr>"
proof (induction n)
  case 0
  then show ?case by (simp add: cmx_event_count_def fun_upd_idem)
next
  case (Suc n)
  let ?s1 = "s\<lparr>k_semaphores := (k_semaphores s)(event_id event \<mapsto> c + n)\<rparr>"
  have ih: "(cmx_osSetEvent event ^^ n) s = ?s1" by (rule Suc.IH [OF Suc.prems])
  have "cmx_event_count event ?s1 = Some (c + n)" by (simp add: cmx_event_count_def)
  then have step: "cmx_osSetEvent event ?s1
      = ?s1\<lparr>k_semaphores := (k_semaphores ?s1)(event_id event \<mapsto> Suc (c + n))\<rparr>"
    by (rule cmx_set_count)
  have "(cmx_osSetEvent event ^^ Suc n) s = cmx_osSetEvent event ((cmx_osSetEvent event ^^ n) s)"
    by simp
  also have "\<dots> = cmx_osSetEvent event ?s1" by (simp only: ih)
  also have "\<dots> = ?s1\<lparr>k_semaphores := (k_semaphores ?s1)(event_id event \<mapsto> Suc (c + n))\<rparr>"
    by (rule step)
  also have "\<dots> = s\<lparr>k_semaphores := (k_semaphores s)(event_id event \<mapsto> c + Suc n)\<rparr>"
    by simp
  finally show ?case .
qed

lemma cmx_osCreateEvent_count:
  "cmx_osCreateEvent event0 s0 = (True, event, s) \<Longrightarrow> cmx_event_count event s = Some 0"
  by (auto simp: cmx_osCreateEvent_def cmx_event_count_def K_Semaphore_Create_def Let_def
           split: prod.splits if_splits)

lemma tick_constants: "(0::32 word) \<noteq> portMAX_DELAY" "(0::32 word) \<noteq> INFINITE_DELAY"
  by (simp_all add: portMAX_DELAY_def INFINITE_DELAY_def)

lemma safertos_event_countD:
  "safertos_event_count event k = Some c \<Longrightarrow>
   \<exists>q. x_queues k (handle event) = Some q \<and> sem_max q = 1 \<and> sem_count q = c \<and> c \<le> 1"
  by (auto simp: safertos_event_count_def split: option.splits if_splits)

lemma safertos_same_count:
  "x_queues k h = Some q \<Longrightarrow> sem_count q = c \<Longrightarrow>
   k\<lparr>x_queues := (x_queues k)(h \<mapsto> q\<lparr>sem_count := c\<rparr>)\<rparr> = k"
  by (simp add: fun_upd_idem)

lemma safertos_osCreateEvent_count:
  "safertos_osCreateEvent event0 k0 = Some (True, event, k) \<Longrightarrow>
   safertos_event_count event k = Some 0"
  using tick_constants
  by (auto simp: safertos_osCreateEvent_def safertos_event_count_def xSemaphoreCreateBinary_def
        xSemaphoreTake_def split: prod.splits if_splits option.splits)

lemma safertos_wait_poll_fails:
  "safertos_event_count event k = Some 0 \<Longrightarrow>
   safertos_osWaitForEvent event 0 k = Some (False, k)"
  using tick_constants
  by (auto dest!: safertos_event_countD
        simp: safertos_osWaitForEvent_def xSemaphoreTake_def OS_MS_TO_SYSTICKS_def)

lemma safertos_set_empty:
  assumes "x_queues k (handle event) = Some q" "sem_max q = 1" "sem_count q = 0"
  shows "safertos_osSetEvent event k
       = k\<lparr>x_queues := (x_queues k)(handle event \<mapsto> q\<lparr>sem_count := 1\<rparr>)\<rparr>"
  using assms by (simp add: safertos_osSetEvent_def xSemaphoreGive_def)

lemma safertos_set_full:
  assumes "x_queues k (handle event) = Some q" "sem_max q = 1" "sem_count q = 1"
  shows "safertos_osSetEvent event k = k"
  using assms by (simp add: safertos_osSetEvent_def xSemaphoreGive_def)

lemma safertos_set_count:
  "safertos_event_count event k = Some c \<Longrightarrow>
   safertos_event_count event (safertos_osSetEvent event k) = Some 1"
proof -
  assume "safertos_event_count event k = Some c"
  then obtain q where q: "x_queues k (handle event) = Some q" "sem_max q = 1" "sem_count q = c" "c \<le> 1"
    by (auto dest: safertos_event_countD)
  then have "c = 0 \<or> c = 1" by auto
  then show ?thesis
  proof
    assume "c = 0"
    then show ?thesis using q by (simp add: safertos_set_empty safertos_event_count_def)
  next
    assume "c = 1"
    then show ?thesis using q by (simp add: safertos_set_full safertos_event_count_def)
  qed
qed

lemma safertos_sets_count:
  "safertos_event_count event k = Some c \<Longrightarrow>
   safertos_event_count event ((safertos_osSetEvent event ^^ n) k) = Some (if n = 0 then c else 1)"
proof (induction n)
  case 0
  then show ?case by simp
next
  case (Suc n)
  then have "safertos_event_count event ((safertos_osSetEvent event ^^ n) k)
      = Some (if n = 0 then c else 1)" by simp
  then have "safertos_event_count event
      (safertos_osSetEvent event ((safertos_osSetEvent event ^^ n) k)) = Some 1"
    by (rule safertos_set_count)
  then show ?case by simp
qed

lemma safertos_wait_signaled:
  assumes "x_queues k (handle event) = Some q" "sem_count q = 1"
  shows "safertos_osWaitForEvent event t k
       = Some (True, k\<lparr>x_queues := (x_queues k)(handle event \<mapsto> q\<lparr>sem_count := 0\<rparr>)\<rparr>)"
  using assms by (simp add: safertos_osWaitForEvent_def xSemaphoreTake_def)

lemma safertos_reset_count:
  assumes "safertos_event_count event k = Some c"
  shows "\<exists>k'. safertos_osResetEvent event k = Some k' \<and> safertos_event_count event k' = Some 0"
proof -
  from assms obtain q where q: "x_queues k (handle event) = Some q" "sem_max q = 1"
      "sem_count q = c" "c \<le> 1"
    by (auto dest: safertos_event_countD)
  show ?thesis
  proof (cases "c = 0")
    case True
    then have "safertos_osResetEvent event k = Some k"
      using q tick_constants by (simp add: safertos_osResetEvent_def xSemaphoreTake_def)
    then show ?thesis using assms True by simp
  next
    case False
    then have "safertos_osResetEvent event k
        = Some (k\<lparr>x_queues := (x_queues k)(handle event \<mapsto> q\<lparr>sem_count := sem_count q - 1\<rparr>)\<rparr>)"
      using q by (simp add: safertos_osResetEvent_def xSemaphoreTake_def)
    moreover have "safertos_event_count event
        (k\<lparr>x_queues := (x_queues k)(handle event \<mapsto> q\<lparr>sem_count := sem_count q - 1\<rparr>)\<rparr>) = Some 0"
      using q False by (simp add: safertos_event_count_def)
    ultimately show ?thesis by blast
  qed
qed

lemma safertos_set_wait:
  assumes "safertos_event_count event k = Some 0"
  shows "safertos_osWaitForEvent event t (safertos_osSetEvent event k) = Some (True, k)"
proof -
  from assms obtain q where q: "x_queues k (handle event) = Some q" "sem_max q = 1" "sem_count q = 0"
    by (auto dest: safertos_event_countD)
  let ?k1 = "k\<lparr>x_queues := (x_queues k)(handle event \<mapsto> q\<lparr>sem_count := 1\<rparr>)\<rparr>"
  have set: "safertos_osSetEvent event k = ?k1" using q by (rule safertos_set_empty)
  have "safertos_osWaitForEvent event t ?k1
      = Some (True, ?k1\<lparr>x_queues := (x_queues ?k1)(handle event \<mapsto> (q\<lparr>sem_count := 1\<rparr>)\<lparr>sem_count := 0\<rparr>)\<rparr>)"
    by (rule safertos_wait_signaled) simp_all
  also have "?k1\<lparr>x_queues := (x_queues ?k1)(handle event \<mapsto> (q\<lparr>sem_count := 1\<rparr>)\<lparr>sem_count := 0\<rparr>)\<rparr>
      = k\<lparr>x_queues := (x_queues k)(handle event \<mapsto> q\<lparr>sem_count := 0\<rparr>)\<rparr>"
    by simp
  also have "\<dots> = k" using q(1,3) by (rule safertos_same_count)
  finally have "safertos_osWaitForEvent event t ?k1 = Some (True, k)" .
  then show ?thesis by (simp only: set)
qed

lemma safertos_sets_wait:
  assumes "safertos_event_count event k = Some 0" "0 < n"
  shows "safertos_osWaitForEvent event t ((safertos_osSetEvent event ^^ n) k) = Some (True, k)"
  using assms(2)
proof (induction n)
  case 0
  then show ?case by simp
next
  case (Suc n)
  show ?case
  proof (cases "n = 0")
    case True
    then show ?thesis using assms(1) by (simp add: safertos_set_wait)
  next
    case False
    let ?kn = "(safertos_osSetEvent event ^^ n) k"
    have "safertos_event_count event ?kn = Some 1"
      using safertos_sets_count [OF assms(1), of n] False by simp
    then obtain q where "x_queues ?kn (handle event) = Some q" "sem_max q = 1" "sem_count q = 1"
      by (auto dest: safertos_event_countD)
    then have "safertos_osSetEvent event ?kn = ?kn" by (rule safertos_set_full)
    then show ?thesis using Suc.IH False by simp
  qed
qed

lemma zephyr_created_poll:
  "zephyr_osCreateEvent event0 = (True, event) \<Longrightarrow>
   zephyr_osWaitForEvent event 0 = Some (False, event)"
  by (auto simp: zephyr_osCreateEvent_def k_sem_init_def zephyr_osWaitForEvent_def
        k_sem_take_def split: if_splits)


lemma replicate_four: "replicate 4 x = [x, x, x, x]"
  by (simp add: eval_nat_numeral)



declare px5_drain.simps [simp del]

lemma px5_drain_value: "px5_drain event = event\<lparr>px5_value := 0\<rparr>"
proof (induction "px5_value event" arbitrary: event)
  case 0
  then show ?case by (subst px5_drain.simps) (simp add: px5_sem_trywait_def)
next
  case (Suc v)
  let ?e1 = "event\<lparr>px5_value := px5_value event - 1\<rparr>"
  have "v = px5_value ?e1" using Suc.hyps(2) by simp
  then have "px5_drain ?e1 = ?e1\<lparr>px5_value := 0\<rparr>" by (rule Suc.hyps(1))
  then show ?case using Suc.hyps(2)
    by (subst px5_drain.simps) (simp add: px5_sem_trywait_def)
qed

lemma px5_same_value: "px5_value event = v \<Longrightarrow> event\<lparr>px5_value := v\<rparr> = event"
  by simp

lemma px5_set_value:
  "px5_osSetEvent vmax event
     = (if px5_value event < vmax then event\<lparr>px5_value := px5_value event + 1\<rparr> else event)"
  by (simp add: px5_osSetEvent_def px5_sem_post_def)

lemma px5_sets_positive:
  "0 < vmax \<Longrightarrow> 0 < n \<Longrightarrow> 0 < px5_value ((px5_osSetEvent vmax ^^ n) event)"
proof (induction n)
  case 0
  then show ?case by simp
next
  case (Suc n)
  then show ?case by (simp add: px5_set_value)
qed

lemma px5_sets_other_fields:
  "((px5_osSetEvent vmax ^^ n) event)\<lparr>px5_value := v\<rparr> = event\<lparr>px5_value := v\<rparr>"
  by (induction n) (simp_all add: px5_set_value)

lemma px5_wait_event_signaled:
  "0 < px5_value event \<Longrightarrow>
   px5_osWaitForEvent event t = Some (True, event\<lparr>px5_value := 0\<rparr>)"
  by (simp add: px5_osWaitForEvent_def px5_sem_trywait_def px5_sem_wait_def
        px5_sem_timedwait_def px5_drain_value)

lemma px5_wait_event_empty:
  "px5_value event = 0 \<Longrightarrow> px5_osWaitForEvent event 0 = Some (False, event)"
  by (simp add: px5_osWaitForEvent_def px5_sem_trywait_def)

lemma px5_osCreateEvent_value:
  "px5_osCreateEvent vmax event0 = (True, event) \<Longrightarrow> px5_value event = 0"
  by (auto simp: px5_osCreateEvent_def px5_sem_init_def split: if_splits)

lemma zephyr_osCreateEvent_state:
  "zephyr_osCreateEvent event0 = (True, event) \<Longrightarrow> k_count event = 0 \<and> k_limit event = 1"
  by (auto simp: zephyr_osCreateEvent_def k_sem_init_def split: if_splits)

lemma zephyr_set_value:
  "zephyr_osSetEvent event
     = (if k_count event < k_limit event then event\<lparr>k_count := k_count event + 1\<rparr> else event)"
  by (simp add: zephyr_osSetEvent_def k_sem_give_def)

lemma zephyr_sets_value:
  "k_count event = 0 \<Longrightarrow> k_limit event = 1 \<Longrightarrow> 0 < n \<Longrightarrow>
   (zephyr_osSetEvent ^^ n) event = event\<lparr>k_count := 1\<rparr>"
proof (induction n)
  case 0
  then show ?case by simp
next
  case (Suc n)
  have step: "(zephyr_osSetEvent ^^ Suc n) event = zephyr_osSetEvent ((zephyr_osSetEvent ^^ n) event)"
    by simp
  show ?case
  proof (cases "n = 0")
    case True
    have "zephyr_osSetEvent event = event\<lparr>k_count := 1\<rparr>"
      using Suc.prems by (subst zephyr_set_value) simp
    then show ?thesis using True by simp
  next
    case False
    then have ih: "(zephyr_osSetEvent ^^ n) event = event\<lparr>k_count := 1\<rparr>"
      using Suc by simp
    have "zephyr_osSetEvent (event\<lparr>k_count := 1\<rparr>) = event\<lparr>k_count := 1\<rparr>"
      using Suc.prems by (subst zephyr_set_value) simp
    then show ?thesis by (simp only: step ih)
  qed
qed

lemma zephyr_wait_signaled:
  "0 < k_count event \<Longrightarrow>
   zephyr_osWaitForEvent event t = Some (True, event\<lparr>k_count := k_count event - 1\<rparr>)"
  by (simp add: zephyr_osWaitForEvent_def k_sem_take_def)

lemma zephyr_wait_empty:
  "k_count event = 0 \<Longrightarrow> zephyr_osWaitForEvent event 0 = Some (False, event)"
  by (simp add: zephyr_osWaitForEvent_def k_sem_take_def)

subsection \<open>An event is nonsignaled after its creation\<close>

lemma cmx_created_poll:
  "cmx_osCreateEvent cev0 s0 = (True, cev, s) \<longrightarrow>
   cmx_osWaitForEvent cev 0 s = Some (False, s)"
proof
  assume "cmx_osCreateEvent cev0 s0 = (True, cev, s)"
  then have "cmx_event_count cev s = Some 0" by (rule cmx_osCreateEvent_count)
  then show "cmx_osWaitForEvent cev 0 s = Some (False, s)"
    by (intro cmx_wait_poll_fails) simp
qed

lemma safertos_created_poll:
  "safertos_osCreateEvent xev0 k0 = Some (True, xev, k) \<longrightarrow>
   safertos_osWaitForEvent xev 0 k = Some (False, k)"
proof
  assume "safertos_osCreateEvent xev0 k0 = Some (True, xev, k)"
  then have "safertos_event_count xev k = Some 0" by (rule safertos_osCreateEvent_count)
  then show "safertos_osWaitForEvent xev 0 k = Some (False, k)"
    by (rule safertos_wait_poll_fails)
qed

lemma px5_created_poll:
  "px5_osCreateEvent vmax pev0 = (True, pev) \<longrightarrow>
   px5_osWaitForEvent pev 0 = Some (False, pev)"
  by (auto dest: px5_osCreateEvent_value intro: px5_wait_event_empty)

text \<open>
  C4. After a successful \<^verbatim>\<open>osCreateEvent\<close> the event is nonsignaled: a wait with
  timeout 0 right after the creation returns \<open>FALSE\<close> and changes nothing. This holds
  on the CMX-RTX port (the semaphore is created with count 0), on the SafeRTOS port
  whether the kernel creates binary semaphores available or empty (the port takes the
  semaphore once after creating it), on the Zephyr port (initial count 0, limit 1) and
  on the PX5 port (initial value 0).
\<close>

theorem event_created_nonsignaled:
  "(cmx_osCreateEvent cev0 s0 = (True, cev, s) \<longrightarrow>
      cmx_osWaitForEvent cev 0 s = Some (False, s))
   \<and> (safertos_osCreateEvent xev0 k0 = Some (True, xev, k) \<longrightarrow>
      safertos_osWaitForEvent xev 0 k = Some (False, k))
   \<and> (zephyr_osCreateEvent zev0 = (True, zev) \<longrightarrow>
      zephyr_osWaitForEvent zev 0 = Some (False, zev))
   \<and> (px5_osCreateEvent vmax pev0 = (True, pev) \<longrightarrow>
      px5_osWaitForEvent pev 0 = Some (False, pev))"
proof (intro conjI)
  show "cmx_osCreateEvent cev0 s0 = (True, cev, s) \<longrightarrow>
      cmx_osWaitForEvent cev 0 s = Some (False, s)"
    by (rule cmx_created_poll)
  show "safertos_osCreateEvent xev0 k0 = Some (True, xev, k) \<longrightarrow>
      safertos_osWaitForEvent xev 0 k = Some (False, k)"
    by (rule safertos_created_poll)
  show "zephyr_osCreateEvent zev0 = (True, zev) \<longrightarrow>
      zephyr_osWaitForEvent zev 0 = Some (False, zev)"
    by (auto intro: zephyr_created_poll)
  show "px5_osCreateEvent vmax pev0 = (True, pev) \<longrightarrow>
      px5_osWaitForEvent pev 0 = Some (False, pev)"
    by (rule px5_created_poll)
qed

theorem event_created_nonsignaled_witness:
  "cmx_osCreateEvent \<lparr>event_id = 7\<rparr> (cmx_initial 4)
     = (True, \<lparr>event_id = 0\<rparr>,
        (cmx_initial 4)\<lparr>semaphoreTable := [True, False, False, False],
                        k_semaphores := [0 \<mapsto> 0]\<rparr>)
   \<and> cmx_osWaitForEvent \<lparr>event_id = 0\<rparr> 0
        ((cmx_initial 4)\<lparr>semaphoreTable := [True, False, False, False],
                         k_semaphores := [0 \<mapsto> 0]\<rparr>)
     = Some (False, (cmx_initial 4)\<lparr>semaphoreTable := [True, False, False, False],
                                    k_semaphores := [0 \<mapsto> 0]\<rparr>)
   \<and> safertos_osCreateEvent \<lparr>handle = NULL, buffer = 0x20000010\<rparr> (safertos_initial True 64)
     = Some (True, \<lparr>handle = 0x20000040, buffer = 0x20000010\<rparr>,
        (safertos_initial True 64)\<lparr>x_queues := [0x20000040 \<mapsto> \<lparr>sem_count = 0, sem_max = 1\<rparr>]\<rparr>)
   \<and> safertos_osWaitForEvent \<lparr>handle = 0x20000040, buffer = 0x20000010\<rparr> 0
        ((safertos_initial True 64)\<lparr>x_queues := [0x20000040 \<mapsto> \<lparr>sem_count = 0, sem_max = 1\<rparr>]\<rparr>)
     = Some (False,
        (safertos_initial True 64)\<lparr>x_queues := [0x20000040 \<mapsto> \<lparr>sem_count = 0, sem_max = 1\<rparr>]\<rparr>)
   \<and> safertos_osCreateEvent \<lparr>handle = NULL, buffer = 0x20000010\<rparr> (safertos_initial False 64)
     = Some (True, \<lparr>handle = 0x20000040, buffer = 0x20000010\<rparr>,
        (safertos_initial False 64)\<lparr>x_queues := [0x20000040 \<mapsto> \<lparr>sem_count = 0, sem_max = 1\<rparr>]\<rparr>)
   \<and> safertos_osWaitForEvent \<lparr>handle = 0x20000040, buffer = 0x20000010\<rparr> 0
        ((safertos_initial False 64)\<lparr>x_queues := [0x20000040 \<mapsto> \<lparr>sem_count = 0, sem_max = 1\<rparr>]\<rparr>)
     = Some (False,
        (safertos_initial False 64)\<lparr>x_queues := [0x20000040 \<mapsto> \<lparr>sem_count = 0, sem_max = 1\<rparr>]\<rparr>)
   \<and> zephyr_osCreateEvent \<lparr>k_count = 5, k_limit = 9\<rparr> = (True, \<lparr>k_count = 0, k_limit = 1\<rparr>)
   \<and> zephyr_osWaitForEvent \<lparr>k_count = 0, k_limit = 1\<rparr> 0
     = Some (False, \<lparr>k_count = 0, k_limit = 1\<rparr>)
   \<and> px5_osCreateEvent 32767 \<lparr>px5_value = 5\<rparr> = (True, \<lparr>px5_value = 0\<rparr>)
   \<and> px5_osWaitForEvent \<lparr>px5_value = 0\<rparr> 0 = Some (False, \<lparr>px5_value = 0\<rparr>)"
  using event_created_nonsignaled
    [of "\<lparr>event_id = 7\<rparr>" "cmx_initial 4" "\<lparr>event_id = 0\<rparr>"
        "(cmx_initial 4)\<lparr>semaphoreTable := [True, False, False, False],
                        k_semaphores := [0 \<mapsto> 0]\<rparr>"
        "\<lparr>handle = NULL, buffer = 0x20000010\<rparr>" "safertos_initial True 64"
        "\<lparr>handle = 0x20000040, buffer = 0x20000010\<rparr>"
        "(safertos_initial True 64)\<lparr>x_queues := [0x20000040 \<mapsto> \<lparr>sem_count = 0, sem_max = 1\<rparr>]\<rparr>"
        "\<lparr>k_count = 5, k_limit = 9\<rparr>" "\<lparr>k_count = 0, k_limit = 1\<rparr>"
        32767 "\<lparr>px5_value = 5\<rparr>" "\<lparr>px5_value = 0\<rparr>"]
    event_created_nonsignaled
    [of "\<lparr>event_id = 7\<rparr>" "cmx_initial 4" "\<lparr>event_id = 0\<rparr>"
        "(cmx_initial 4)\<lparr>semaphoreTable := [True, False, False, False],
                        k_semaphores := [0 \<mapsto> 0]\<rparr>"
        "\<lparr>handle = NULL, buffer = 0x20000010\<rparr>" "safertos_initial False 64"
        "\<lparr>handle = 0x20000040, buffer = 0x20000010\<rparr>"
        "(safertos_initial False 64)\<lparr>x_queues := [0x20000040 \<mapsto> \<lparr>sem_count = 0, sem_max = 1\<rparr>]\<rparr>"
        "\<lparr>k_count = 5, k_limit = 9\<rparr>" "\<lparr>k_count = 0, k_limit = 1\<rparr>"
        32767 "\<lparr>px5_value = 5\<rparr>" "\<lparr>px5_value = 0\<rparr>"]
  by (simp add: cmx_osCreateEvent_def cmx_initial_def osAllocateSemaphoreId_def
        alloc_loop.simps K_Semaphore_Create_def OS_INVALID_SEMAPHORE_ID_def Let_def
        replicate_four safertos_osCreateEvent_def safertos_initial_def aligned_buffer_def
        xSemaphoreCreateBinary_def xSemaphoreTake_def NULL_def zephyr_osCreateEvent_def
        k_sem_init_def portMAX_DELAY_def INFINITE_DELAY_def px5_osCreateEvent_def
        px5_sem_init_def)

subsection \<open>One set, one successful wait\<close>

lemma cmx_sets_wait:
  assumes empty: "cmx_event_count cev s = Some 0" and n: "0 < n"
  shows "cmx_osWaitForEvent cev t ((cmx_osSetEvent cev ^^ n) s) = Some (True, s)"
proof -
  let ?s1 = "s\<lparr>k_semaphores := (k_semaphores s)(event_id cev \<mapsto> 0 + n)\<rparr>"
  from n obtain c where c: "n = Suc c" by (cases n) auto
  have sets: "(cmx_osSetEvent cev ^^ n) s = ?s1" using empty by (rule cmx_sets_count)
  have "cmx_event_count cev ?s1 = Some (Suc c)" using c by (simp add: cmx_event_count_def)
  then have "cmx_osWaitForEvent cev t ?s1
      = Some (True, ?s1\<lparr>k_semaphores := (k_semaphores ?s1)(event_id cev \<mapsto> 0)\<rparr>)"
    by (rule cmx_wait_signaled)
  also have "?s1\<lparr>k_semaphores := (k_semaphores ?s1)(event_id cev \<mapsto> 0)\<rparr>
      = s\<lparr>k_semaphores := (k_semaphores s)(event_id cev \<mapsto> 0)\<rparr>"
    by simp
  also have "\<dots> = s" using empty by (intro cmx_same_count) (simp add: cmx_event_count_def)
  finally have "cmx_osWaitForEvent cev t ?s1 = Some (True, s)" .
  then show ?thesis by (simp only: sets)
qed

lemma cmx_event_cycle:
  "(cmx_osCreateEvent cev0 s0 = (True, cev, s) \<longrightarrow> cmx_event_count cev s = Some 0)
   \<and> (cmx_event_count cev s = Some 0 \<longrightarrow>
        cmx_osWaitForEvent cev t (cmx_osSetEvent cev s) = Some (True, s)
        \<and> cmx_osWaitForEvent cev 0 s = Some (False, s))
   \<and> (cmx_event_count cev s = Some 0 \<and> 0 < n \<longrightarrow>
        cmx_osWaitForEvent cev t ((cmx_osSetEvent cev ^^ n) s) = Some (True, s))"
proof (intro conjI impI)
  assume "cmx_osCreateEvent cev0 s0 = (True, cev, s)"
  then show "cmx_event_count cev s = Some 0" by (rule cmx_osCreateEvent_count)
next
  assume "cmx_event_count cev s = Some 0"
  then show "cmx_osWaitForEvent cev t (cmx_osSetEvent cev s) = Some (True, s)"
    using cmx_sets_wait [of cev s 1 t] by simp
next
  assume "cmx_event_count cev s = Some 0"
  then show "cmx_osWaitForEvent cev 0 s = Some (False, s)"
    by (intro cmx_wait_poll_fails) simp
next
  assume "cmx_event_count cev s = Some 0 \<and> 0 < n"
  then show "cmx_osWaitForEvent cev t ((cmx_osSetEvent cev ^^ n) s) = Some (True, s)"
    using cmx_sets_wait by blast
qed

lemma safertos_event_cycle:
  "(safertos_osCreateEvent xev0 k0 = Some (True, xev, k) \<longrightarrow>
        safertos_event_count xev k = Some 0)
   \<and> (safertos_event_count xev k = Some 0 \<longrightarrow>
        safertos_osWaitForEvent xev t (safertos_osSetEvent xev k) = Some (True, k)
        \<and> safertos_osWaitForEvent xev 0 k = Some (False, k))
   \<and> (safertos_event_count xev k = Some 0 \<and> 0 < n \<longrightarrow>
        safertos_osWaitForEvent xev t ((safertos_osSetEvent xev ^^ n) k) = Some (True, k))"
proof (intro conjI impI)
  assume "safertos_osCreateEvent xev0 k0 = Some (True, xev, k)"
  then show "safertos_event_count xev k = Some 0" by (rule safertos_osCreateEvent_count)
next
  assume "safertos_event_count xev k = Some 0"
  then show "safertos_osWaitForEvent xev t (safertos_osSetEvent xev k) = Some (True, k)"
    by (rule safertos_set_wait)
next
  assume "safertos_event_count xev k = Some 0"
  then show "safertos_osWaitForEvent xev 0 k = Some (False, k)"
    by (rule safertos_wait_poll_fails)
next
  assume "safertos_event_count xev k = Some 0 \<and> 0 < n"
  then show "safertos_osWaitForEvent xev t ((safertos_osSetEvent xev ^^ n) k) = Some (True, k)"
    using safertos_sets_wait by blast
qed

lemma px5_sets_wait:
  assumes empty: "px5_value pev = 0" and vmax: "0 < vmax" and n: "0 < n"
  shows "px5_osWaitForEvent ((px5_osSetEvent vmax ^^ n) pev) t = Some (True, pev)"
proof -
  let ?e = "(px5_osSetEvent vmax ^^ n) pev"
  have "0 < px5_value ?e" using vmax n by (rule px5_sets_positive)
  then have "px5_osWaitForEvent ?e t = Some (True, ?e\<lparr>px5_value := 0\<rparr>)"
    by (rule px5_wait_event_signaled)
  also have "?e\<lparr>px5_value := 0\<rparr> = pev\<lparr>px5_value := 0\<rparr>" by (rule px5_sets_other_fields)
  also have "\<dots> = pev" using empty by (rule px5_same_value)
  finally show ?thesis .
qed

lemma px5_event_cycle:
  "(px5_osCreateEvent vmax pev0 = (True, pev) \<longrightarrow> px5_value pev = 0)
   \<and> (px5_value pev = 0 \<and> 0 < vmax \<longrightarrow>
        px5_osWaitForEvent (px5_osSetEvent vmax pev) t = Some (True, pev)
        \<and> px5_osWaitForEvent pev 0 = Some (False, pev))
   \<and> (px5_value pev = 0 \<and> 0 < vmax \<and> 0 < n \<longrightarrow>
        px5_osWaitForEvent ((px5_osSetEvent vmax ^^ n) pev) t = Some (True, pev))"
proof (intro conjI impI; (elim conjE)?)
  assume "px5_osCreateEvent vmax pev0 = (True, pev)"
  then show "px5_value pev = 0" by (rule px5_osCreateEvent_value)
next
  assume "px5_value pev = 0" "0 < vmax"
  then show "px5_osWaitForEvent (px5_osSetEvent vmax pev) t = Some (True, pev)"
    using px5_sets_wait [of pev vmax 1 t] by simp
next
  assume "px5_value pev = 0"
  then show "px5_osWaitForEvent pev 0 = Some (False, pev)" by (rule px5_wait_event_empty)
next
  assume "px5_value pev = 0" "0 < vmax" "0 < n"
  then show "px5_osWaitForEvent ((px5_osSetEvent vmax ^^ n) pev) t = Some (True, pev)"
    by (rule px5_sets_wait)
qed

lemma zephyr_sets_wait:
  assumes empty: "k_count zev = 0" and limit: "k_limit zev = 1" and n: "0 < n"
  shows "zephyr_osWaitForEvent ((zephyr_osSetEvent ^^ n) zev) t = Some (True, zev)"
proof -
  let ?e = "zev\<lparr>k_count := 1\<rparr>"
  have sets: "(zephyr_osSetEvent ^^ n) zev = ?e" using assms by (rule zephyr_sets_value)
  have "zephyr_osWaitForEvent ?e t = Some (True, ?e\<lparr>k_count := k_count ?e - 1\<rparr>)"
    by (rule zephyr_wait_signaled) simp
  also have "?e\<lparr>k_count := k_count ?e - 1\<rparr> = zev" using empty by simp
  finally have "zephyr_osWaitForEvent ?e t = Some (True, zev)" .
  then show ?thesis by (simp only: sets)
qed

lemma zephyr_event_cycle:
  "(zephyr_osCreateEvent zev0 = (True, zev) \<longrightarrow> k_count zev = 0 \<and> k_limit zev = 1)
   \<and> (k_count zev = 0 \<and> k_limit zev = 1 \<longrightarrow>
        zephyr_osWaitForEvent (zephyr_osSetEvent zev) t = Some (True, zev)
        \<and> zephyr_osWaitForEvent zev 0 = Some (False, zev))
   \<and> (k_count zev = 0 \<and> k_limit zev = 1 \<and> 0 < n \<longrightarrow>
        zephyr_osWaitForEvent ((zephyr_osSetEvent ^^ n) zev) t = Some (True, zev))"
proof (intro conjI impI; (elim conjE)?)
  assume "zephyr_osCreateEvent zev0 = (True, zev)"
  then show "k_count zev = 0" "k_limit zev = 1"
    using zephyr_osCreateEvent_state by blast+
next
  assume "k_count zev = 0" "k_limit zev = 1"
  then show "zephyr_osWaitForEvent (zephyr_osSetEvent zev) t = Some (True, zev)"
    using zephyr_sets_wait [of zev 1 t] by simp
next
  assume "k_count zev = 0"
  then show "zephyr_osWaitForEvent zev 0 = Some (False, zev)" by (rule zephyr_wait_empty)
next
  assume "k_count zev = 0" "k_limit zev = 1" "0 < n"
  then show "zephyr_osWaitForEvent ((zephyr_osSetEvent ^^ n) zev) t = Some (True, zev)"
    by (rule zephyr_sets_wait)
qed

text \<open>
  C1. An event that \<^verbatim>\<open>osCreateEvent\<close> has created and that is nonsignaled (its kernel
  semaphore exists and holds no unit, as right after the creation): after one
  \<^verbatim>\<open>osSetEvent\<close>, a wait with any timeout returns \<open>TRUE\<close>, and a wait with timeout 0
  that follows it returns \<open>FALSE\<close>. The successful wait leaves the event nonsignaled,
  in the very state it had before the set, also when \<^verbatim>\<open>osSetEvent\<close> was called several
  times before the wait. This holds on the CMX-RTX and PX5 ports, whose wait drains the
  counting semaphore after it has taken a unit, and on the SafeRTOS and Zephyr ports,
  whose semaphore holds one unit at most. (On PX5 the kernel-wide maximum of a semaphore
  value is taken to be at least 1.)
\<close>

theorem event_set_wait_once:
  "((cmx_osCreateEvent cev0 s0 = (True, cev, s) \<longrightarrow> cmx_event_count cev s = Some 0)
    \<and> (cmx_event_count cev s = Some 0 \<longrightarrow>
         cmx_osWaitForEvent cev t (cmx_osSetEvent cev s) = Some (True, s)
         \<and> cmx_osWaitForEvent cev 0 s = Some (False, s))
    \<and> (cmx_event_count cev s = Some 0 \<and> 0 < n \<longrightarrow>
         cmx_osWaitForEvent cev t ((cmx_osSetEvent cev ^^ n) s) = Some (True, s)))
   \<and> ((safertos_osCreateEvent xev0 k0 = Some (True, xev, k) \<longrightarrow>
         safertos_event_count xev k = Some 0)
    \<and> (safertos_event_count xev k = Some 0 \<longrightarrow>
         safertos_osWaitForEvent xev t (safertos_osSetEvent xev k) = Some (True, k)
         \<and> safertos_osWaitForEvent xev 0 k = Some (False, k))
    \<and> (safertos_event_count xev k = Some 0 \<and> 0 < n \<longrightarrow>
         safertos_osWaitForEvent xev t ((safertos_osSetEvent xev ^^ n) k) = Some (True, k)))
   \<and> ((px5_osCreateEvent vmax pev0 = (True, pev) \<longrightarrow> px5_value pev = 0)
    \<and> (px5_value pev = 0 \<and> 0 < vmax \<longrightarrow>
         px5_osWaitForEvent (px5_osSetEvent vmax pev) t = Some (True, pev)
         \<and> px5_osWaitForEvent pev 0 = Some (False, pev))
    \<and> (px5_value pev = 0 \<and> 0 < vmax \<and> 0 < n \<longrightarrow>
         px5_osWaitForEvent ((px5_osSetEvent vmax ^^ n) pev) t = Some (True, pev)))
   \<and> ((zephyr_osCreateEvent zev0 = (True, zev) \<longrightarrow> k_count zev = 0 \<and> k_limit zev = 1)
    \<and> (k_count zev = 0 \<and> k_limit zev = 1 \<longrightarrow>
         zephyr_osWaitForEvent (zephyr_osSetEvent zev) t = Some (True, zev)
         \<and> zephyr_osWaitForEvent zev 0 = Some (False, zev))
    \<and> (k_count zev = 0 \<and> k_limit zev = 1 \<and> 0 < n \<longrightarrow>
         zephyr_osWaitForEvent ((zephyr_osSetEvent ^^ n) zev) t = Some (True, zev)))"
  by (rule conjI [OF cmx_event_cycle
        conjI [OF safertos_event_cycle conjI [OF px5_event_cycle zephyr_event_cycle]]])

theorem event_set_wait_once_witness:
  "cmx_osCreateEvent \<lparr>event_id = 7\<rparr> (cmx_initial 4)
     = (True, \<lparr>event_id = 0\<rparr>,
        (cmx_initial 4)\<lparr>semaphoreTable := [True, False, False, False],
                        k_semaphores := [0 \<mapsto> 0]\<rparr>)
   \<and> cmx_event_count \<lparr>event_id = 0\<rparr>
        ((cmx_initial 4)\<lparr>semaphoreTable := [True, False, False, False],
                         k_semaphores := [0 \<mapsto> 0]\<rparr>) = Some 0
   \<and> cmx_osWaitForEvent \<lparr>event_id = 0\<rparr> 1000
        (cmx_osSetEvent \<lparr>event_id = 0\<rparr>
           ((cmx_initial 4)\<lparr>semaphoreTable := [True, False, False, False],
                            k_semaphores := [0 \<mapsto> 0]\<rparr>))
     = Some (True, (cmx_initial 4)\<lparr>semaphoreTable := [True, False, False, False],
                                   k_semaphores := [0 \<mapsto> 0]\<rparr>)
   \<and> cmx_osWaitForEvent \<lparr>event_id = 0\<rparr> 0
        ((cmx_initial 4)\<lparr>semaphoreTable := [True, False, False, False],
                         k_semaphores := [0 \<mapsto> 0]\<rparr>)
     = Some (False, (cmx_initial 4)\<lparr>semaphoreTable := [True, False, False, False],
                                    k_semaphores := [0 \<mapsto> 0]\<rparr>)
   \<and> cmx_osWaitForEvent \<lparr>event_id = 0\<rparr> 1000
        ((cmx_osSetEvent \<lparr>event_id = 0\<rparr> ^^ 3)
           ((cmx_initial 4)\<lparr>semaphoreTable := [True, False, False, False],
                            k_semaphores := [0 \<mapsto> 0]\<rparr>))
     = Some (True, (cmx_initial 4)\<lparr>semaphoreTable := [True, False, False, False],
                                   k_semaphores := [0 \<mapsto> 0]\<rparr>)
   \<and> safertos_osCreateEvent \<lparr>handle = NULL, buffer = 0x20000010\<rparr> (safertos_initial True 64)
     = Some (True, \<lparr>handle = 0x20000040, buffer = 0x20000010\<rparr>,
        (safertos_initial True 64)\<lparr>x_queues := [0x20000040 \<mapsto> \<lparr>sem_count = 0, sem_max = 1\<rparr>]\<rparr>)
   \<and> safertos_event_count \<lparr>handle = 0x20000040, buffer = 0x20000010\<rparr>
        ((safertos_initial True 64)\<lparr>x_queues := [0x20000040 \<mapsto> \<lparr>sem_count = 0, sem_max = 1\<rparr>]\<rparr>)
     = Some 0
   \<and> safertos_osWaitForEvent \<lparr>handle = 0x20000040, buffer = 0x20000010\<rparr> 1000
        (safertos_osSetEvent \<lparr>handle = 0x20000040, buffer = 0x20000010\<rparr>
          ((safertos_initial True 64)\<lparr>x_queues := [0x20000040 \<mapsto> \<lparr>sem_count = 0, sem_max = 1\<rparr>]\<rparr>))
     = Some (True,
        (safertos_initial True 64)\<lparr>x_queues := [0x20000040 \<mapsto> \<lparr>sem_count = 0, sem_max = 1\<rparr>]\<rparr>)
   \<and> safertos_osWaitForEvent \<lparr>handle = 0x20000040, buffer = 0x20000010\<rparr> 0
        ((safertos_initial True 64)\<lparr>x_queues := [0x20000040 \<mapsto> \<lparr>sem_count = 0, sem_max = 1\<rparr>]\<rparr>)
     = Some (False,
        (safertos_initial True 64)\<lparr>x_queues := [0x20000040 \<mapsto> \<lparr>sem_count = 0, sem_max = 1\<rparr>]\<rparr>)
   \<and> safertos_osWaitForEvent \<lparr>handle = 0x20000040, buffer = 0x20000010\<rparr> 1000
        ((safertos_osSetEvent \<lparr>handle = 0x20000040, buffer = 0x20000010\<rparr> ^^ 3)
          ((safertos_initial True 64)\<lparr>x_queues := [0x20000040 \<mapsto> \<lparr>sem_count = 0, sem_max = 1\<rparr>]\<rparr>))
     = Some (True,
        (safertos_initial True 64)\<lparr>x_queues := [0x20000040 \<mapsto> \<lparr>sem_count = 0, sem_max = 1\<rparr>]\<rparr>)
   \<and> px5_osCreateEvent 32767 \<lparr>px5_value = 5\<rparr> = (True, \<lparr>px5_value = 0\<rparr>)
   \<and> px5_value \<lparr>px5_value = 0\<rparr> = 0 \<and> (0 :: nat) < 32767 \<and> (0 :: nat) < 3
   \<and> px5_osWaitForEvent (px5_osSetEvent 32767 \<lparr>px5_value = 0\<rparr>) 1000
     = Some (True, \<lparr>px5_value = 0\<rparr>)
   \<and> px5_osWaitForEvent \<lparr>px5_value = 0\<rparr> 0 = Some (False, \<lparr>px5_value = 0\<rparr>)
   \<and> px5_osWaitForEvent ((px5_osSetEvent 32767 ^^ 3) \<lparr>px5_value = 0\<rparr>) 1000
     = Some (True, \<lparr>px5_value = 0\<rparr>)
   \<and> zephyr_osCreateEvent \<lparr>k_count = 5, k_limit = 9\<rparr> = (True, \<lparr>k_count = 0, k_limit = 1\<rparr>)
   \<and> zephyr_osWaitForEvent (zephyr_osSetEvent \<lparr>k_count = 0, k_limit = 1\<rparr>) 1000
     = Some (True, \<lparr>k_count = 0, k_limit = 1\<rparr>)
   \<and> zephyr_osWaitForEvent \<lparr>k_count = 0, k_limit = 1\<rparr> 0
     = Some (False, \<lparr>k_count = 0, k_limit = 1\<rparr>)
   \<and> zephyr_osWaitForEvent ((zephyr_osSetEvent ^^ 3) \<lparr>k_count = 0, k_limit = 1\<rparr>) 1000
     = Some (True, \<lparr>k_count = 0, k_limit = 1\<rparr>)"
  using event_set_wait_once
    [where ?cev0.0 = "\<lparr>event_id = 7\<rparr>" and ?s0.0 = "cmx_initial 4"
       and cev = "\<lparr>event_id = 0\<rparr>"
       and s = "(cmx_initial 4)\<lparr>semaphoreTable := [True, False, False, False],
                                k_semaphores := [0 \<mapsto> 0]\<rparr>"
       and t = 1000 and n = 3
       and ?xev0.0 = "\<lparr>handle = NULL, buffer = 0x20000010\<rparr>"
       and ?k0.0 = "safertos_initial True 64"
       and xev = "\<lparr>handle = 0x20000040, buffer = 0x20000010\<rparr>"
       and k = "(safertos_initial True 64)\<lparr>x_queues :=
                  [0x20000040 \<mapsto> \<lparr>sem_count = 0, sem_max = 1\<rparr>]\<rparr>"
       and vmax = 32767 and ?pev0.0 = "\<lparr>px5_value = 5\<rparr>" and pev = "\<lparr>px5_value = 0\<rparr>"
       and ?zev0.0 = "\<lparr>k_count = 5, k_limit = 9\<rparr>"
       and zev = "\<lparr>k_count = 0, k_limit = 1\<rparr>"]
  by (simp add: cmx_osCreateEvent_def cmx_initial_def osAllocateSemaphoreId_def
        alloc_loop.simps K_Semaphore_Create_def OS_INVALID_SEMAPHORE_ID_def Let_def
        replicate_four safertos_osCreateEvent_def safertos_initial_def aligned_buffer_def
        xSemaphoreCreateBinary_def xSemaphoreTake_def NULL_def portMAX_DELAY_def
        cmx_event_count_def safertos_event_count_def px5_osCreateEvent_def
        px5_sem_init_def zephyr_osCreateEvent_def k_sem_init_def)

subsection \<open>Reset empties the event\<close>

lemma cmx_reset_poll:
  "cmx_osWaitForEvent cev 0 (cmx_osResetEvent cev ((cmx_osSetEvent cev ^^ n) s))
     = Some (False, cmx_osResetEvent cev ((cmx_osSetEvent cev ^^ n) s))
   \<and> (cmx_event_count cev s = Some c \<longrightarrow>
        cmx_event_count cev ((cmx_osSetEvent cev ^^ n) s) = Some (c + n)
        \<and> cmx_event_count cev (cmx_osResetEvent cev ((cmx_osSetEvent cev ^^ n) s)) = Some 0)"
proof (intro conjI impI)
  show "cmx_osWaitForEvent cev 0 (cmx_osResetEvent cev ((cmx_osSetEvent cev ^^ n) s))
     = Some (False, cmx_osResetEvent cev ((cmx_osSetEvent cev ^^ n) s))"
    unfolding cmx_osResetEvent_def by (intro cmx_wait_poll_fails cmx_drain_empties)
next
  assume c: "cmx_event_count cev s = Some c"
  let ?s1 = "s\<lparr>k_semaphores := (k_semaphores s)(event_id cev \<mapsto> c + n)\<rparr>"
  have sets: "(cmx_osSetEvent cev ^^ n) s = ?s1" using c by (rule cmx_sets_count)
  show "cmx_event_count cev ((cmx_osSetEvent cev ^^ n) s) = Some (c + n)"
    by (simp only: sets) (simp add: cmx_event_count_def)
  have "k_semaphores ?s1 (event_id cev) = Some (c + n)" by simp
  then have "cmx_drain (event_id cev) ?s1
      = ?s1\<lparr>k_semaphores := (k_semaphores ?s1)(event_id cev \<mapsto> 0)\<rparr>"
    by (rule cmx_drain_count)
  then have "cmx_event_count cev (cmx_drain (event_id cev) ?s1) = Some 0"
    by (simp add: cmx_event_count_def)
  then show "cmx_event_count cev (cmx_osResetEvent cev ((cmx_osSetEvent cev ^^ n) s)) = Some 0"
    by (simp only: sets cmx_osResetEvent_def)
qed

lemma safertos_reset_poll:
  "(safertos_osCreateEvent xev0 k0 = Some (True, xev, k) \<longrightarrow>
        safertos_event_count xev k \<noteq> None)
   \<and> (safertos_event_count xev k \<noteq> None \<longrightarrow>
        (\<exists>k'. safertos_osResetEvent xev ((safertos_osSetEvent xev ^^ n) k) = Some k'
              \<and> safertos_event_count xev k' = Some 0
              \<and> safertos_osWaitForEvent xev 0 k' = Some (False, k')))"
proof (intro conjI impI)
  assume "safertos_osCreateEvent xev0 k0 = Some (True, xev, k)"
  then have "safertos_event_count xev k = Some 0" by (rule safertos_osCreateEvent_count)
  then show "safertos_event_count xev k \<noteq> None" by simp
next
  assume "safertos_event_count xev k \<noteq> None"
  then obtain c where "safertos_event_count xev k = Some c" by auto
  then have "safertos_event_count xev ((safertos_osSetEvent xev ^^ n) k)
      = Some (if n = 0 then c else 1)"
    by (rule safertos_sets_count)
  then obtain k' where k': "safertos_osResetEvent xev ((safertos_osSetEvent xev ^^ n) k) = Some k'"
      "safertos_event_count xev k' = Some 0"
    using safertos_reset_count by blast
  then have "safertos_osWaitForEvent xev 0 k' = Some (False, k')"
    by (intro safertos_wait_poll_fails)
  then show "\<exists>k'. safertos_osResetEvent xev ((safertos_osSetEvent xev ^^ n) k) = Some k'
      \<and> safertos_event_count xev k' = Some 0
      \<and> safertos_osWaitForEvent xev 0 k' = Some (False, k')"
    using k' by blast
qed

lemma px5_reset_poll:
  "px5_value (px5_osResetEvent ((px5_osSetEvent vmax ^^ n) pev)) = 0
   \<and> px5_osWaitForEvent (px5_osResetEvent ((px5_osSetEvent vmax ^^ n) pev)) 0
      = Some (False, px5_osResetEvent ((px5_osSetEvent vmax ^^ n) pev))"
proof -
  have "px5_value (px5_osResetEvent ((px5_osSetEvent vmax ^^ n) pev)) = 0"
    by (simp add: px5_osResetEvent_def px5_drain_value)
  then show ?thesis by (simp add: px5_wait_event_empty)
qed

lemma zephyr_reset_poll:
  "k_count (zephyr_osResetEvent ((zephyr_osSetEvent ^^ n) zev)) = 0
   \<and> zephyr_osWaitForEvent (zephyr_osResetEvent ((zephyr_osSetEvent ^^ n) zev)) 0
      = Some (False, zephyr_osResetEvent ((zephyr_osSetEvent ^^ n) zev))"
proof -
  have "k_count (zephyr_osResetEvent ((zephyr_osSetEvent ^^ n) zev)) = 0"
    by (simp add: zephyr_osResetEvent_def k_sem_reset_def)
  then show ?thesis by (simp add: zephyr_wait_empty)
qed

text \<open>
  C5. However many times \<^verbatim>\<open>osSetEvent\<close> was called without a wait in between,
  \<^verbatim>\<open>osResetEvent\<close> followed by a wait with timeout 0 makes the wait return \<open>FALSE\<close>.
  On the CMX-RTX and PX5 ports this holds in every state: the loop of
  \<^verbatim>\<open>osResetEvent\<close> brings the count to 0 whatever it was. On the Zephyr port the
  kernel's reset does. On the SafeRTOS port it holds for an event that
  \<^verbatim>\<open>osCreateEvent\<close> has created: its binary semaphore never holds more than one unit,
  which the single take of \<^verbatim>\<open>osResetEvent\<close> removes.
\<close>

theorem reset_then_poll_times_out:
  "(cmx_osWaitForEvent cev 0 (cmx_osResetEvent cev ((cmx_osSetEvent cev ^^ n) s))
      = Some (False, cmx_osResetEvent cev ((cmx_osSetEvent cev ^^ n) s))
    \<and> (cmx_event_count cev s = Some c \<longrightarrow>
         cmx_event_count cev ((cmx_osSetEvent cev ^^ n) s) = Some (c + n)
         \<and> cmx_event_count cev (cmx_osResetEvent cev ((cmx_osSetEvent cev ^^ n) s)) = Some 0))
   \<and> ((safertos_osCreateEvent xev0 k0 = Some (True, xev, k) \<longrightarrow>
         safertos_event_count xev k \<noteq> None)
    \<and> (safertos_event_count xev k \<noteq> None \<longrightarrow>
         (\<exists>k'. safertos_osResetEvent xev ((safertos_osSetEvent xev ^^ n) k) = Some k'
               \<and> safertos_event_count xev k' = Some 0
               \<and> safertos_osWaitForEvent xev 0 k' = Some (False, k'))))
   \<and> (px5_value (px5_osResetEvent ((px5_osSetEvent vmax ^^ n) pev)) = 0
    \<and> px5_osWaitForEvent (px5_osResetEvent ((px5_osSetEvent vmax ^^ n) pev)) 0
       = Some (False, px5_osResetEvent ((px5_osSetEvent vmax ^^ n) pev)))
   \<and> (k_count (zephyr_osResetEvent ((zephyr_osSetEvent ^^ n) zev)) = 0
    \<and> zephyr_osWaitForEvent (zephyr_osResetEvent ((zephyr_osSetEvent ^^ n) zev)) 0
       = Some (False, zephyr_osResetEvent ((zephyr_osSetEvent ^^ n) zev)))"
  by (rule conjI [OF cmx_reset_poll
        conjI [OF safertos_reset_poll conjI [OF px5_reset_poll zephyr_reset_poll]]])

theorem reset_then_poll_times_out_witness:
  "cmx_event_count \<lparr>event_id = 0\<rparr>
        ((cmx_initial 4)\<lparr>semaphoreTable := [True, False, False, False],
                         k_semaphores := [0 \<mapsto> 0]\<rparr>) = Some 0
   \<and> cmx_event_count \<lparr>event_id = 0\<rparr> ((cmx_osSetEvent \<lparr>event_id = 0\<rparr> ^^ 3)
        ((cmx_initial 4)\<lparr>semaphoreTable := [True, False, False, False],
                         k_semaphores := [0 \<mapsto> 0]\<rparr>)) = Some 3
   \<and> cmx_osResetEvent \<lparr>event_id = 0\<rparr> ((cmx_osSetEvent \<lparr>event_id = 0\<rparr> ^^ 3)
          ((cmx_initial 4)\<lparr>semaphoreTable := [True, False, False, False],
                           k_semaphores := [0 \<mapsto> 0]\<rparr>))
     = (cmx_initial 4)\<lparr>semaphoreTable := [True, False, False, False],
                         k_semaphores := [0 \<mapsto> 0]\<rparr>
   \<and> cmx_osWaitForEvent \<lparr>event_id = 0\<rparr> 0
        (cmx_osResetEvent \<lparr>event_id = 0\<rparr> ((cmx_osSetEvent \<lparr>event_id = 0\<rparr> ^^ 3)
          ((cmx_initial 4)\<lparr>semaphoreTable := [True, False, False, False],
                           k_semaphores := [0 \<mapsto> 0]\<rparr>)))
     = Some (False, (cmx_initial 4)\<lparr>semaphoreTable := [True, False, False, False],
                                    k_semaphores := [0 \<mapsto> 0]\<rparr>)
   \<and> safertos_osCreateEvent \<lparr>handle = NULL, buffer = 0x20000010\<rparr> (safertos_initial True 64)
     = Some (True, \<lparr>handle = 0x20000040, buffer = 0x20000010\<rparr>,
        (safertos_initial True 64)\<lparr>x_queues := [0x20000040 \<mapsto> \<lparr>sem_count = 0, sem_max = 1\<rparr>]\<rparr>)
   \<and> safertos_event_count \<lparr>handle = 0x20000040, buffer = 0x20000010\<rparr>
        ((safertos_initial True 64)\<lparr>x_queues := [0x20000040 \<mapsto> \<lparr>sem_count = 0, sem_max = 1\<rparr>]\<rparr>)
     \<noteq> None
   \<and> safertos_osResetEvent \<lparr>handle = 0x20000040, buffer = 0x20000010\<rparr>
          ((safertos_osSetEvent \<lparr>handle = 0x20000040, buffer = 0x20000010\<rparr> ^^ 3)
            ((safertos_initial True 64)\<lparr>x_queues :=
               [0x20000040 \<mapsto> \<lparr>sem_count = 0, sem_max = 1\<rparr>]\<rparr>))
     = Some ((safertos_initial True 64)\<lparr>x_queues :=
               [0x20000040 \<mapsto> \<lparr>sem_count = 0, sem_max = 1\<rparr>]\<rparr>)
   \<and> safertos_osWaitForEvent \<lparr>handle = 0x20000040, buffer = 0x20000010\<rparr> 0
        ((safertos_initial True 64)\<lparr>x_queues := [0x20000040 \<mapsto> \<lparr>sem_count = 0, sem_max = 1\<rparr>]\<rparr>)
     = Some (False,
        (safertos_initial True 64)\<lparr>x_queues := [0x20000040 \<mapsto> \<lparr>sem_count = 0, sem_max = 1\<rparr>]\<rparr>)
   \<and> (px5_osSetEvent 32767 ^^ 3) \<lparr>px5_value = 0\<rparr> = \<lparr>px5_value = 3\<rparr>
   \<and> px5_osResetEvent \<lparr>px5_value = 3\<rparr> = \<lparr>px5_value = 0\<rparr>
   \<and> px5_osWaitForEvent \<lparr>px5_value = 0\<rparr> 0 = Some (False, \<lparr>px5_value = 0\<rparr>)
   \<and> (zephyr_osSetEvent ^^ 3) \<lparr>k_count = 0, k_limit = 1\<rparr> = \<lparr>k_count = 1, k_limit = 1\<rparr>
   \<and> zephyr_osResetEvent \<lparr>k_count = 1, k_limit = 1\<rparr> = \<lparr>k_count = 0, k_limit = 1\<rparr>
   \<and> zephyr_osWaitForEvent \<lparr>k_count = 0, k_limit = 1\<rparr> 0
     = Some (False, \<lparr>k_count = 0, k_limit = 1\<rparr>)"
  using reset_then_poll_times_out
    [where cev = "\<lparr>event_id = 0\<rparr>"
       and s = "(cmx_initial 4)\<lparr>semaphoreTable := [True, False, False, False],
                                k_semaphores := [0 \<mapsto> 0]\<rparr>"
       and c = 0 and n = 3
       and ?xev0.0 = "\<lparr>handle = NULL, buffer = 0x20000010\<rparr>"
       and ?k0.0 = "safertos_initial True 64"
       and xev = "\<lparr>handle = 0x20000040, buffer = 0x20000010\<rparr>"
       and k = "(safertos_initial True 64)\<lparr>x_queues :=
                  [0x20000040 \<mapsto> \<lparr>sem_count = 0, sem_max = 1\<rparr>]\<rparr>"
       and vmax = 32767 and pev = "\<lparr>px5_value = 0\<rparr>"
       and zev = "\<lparr>k_count = 0, k_limit = 1\<rparr>"]
  by (simp add: cmx_initial_def safertos_initial_def cmx_event_count_def
        safertos_event_count_def numeral_3_eq_3 cmx_osSetEvent_def K_Semaphore_Post_def
        cmx_osResetEvent_def cmx_drain.simps K_Semaphore_Get_def cmx_osWaitForEvent_def
        safertos_osCreateEvent_def aligned_buffer_def xSemaphoreCreateBinary_def
        xSemaphoreTake_def xSemaphoreGive_def NULL_def portMAX_DELAY_def INFINITE_DELAY_def
        safertos_osSetEvent_def safertos_osResetEvent_def safertos_osWaitForEvent_def
        OS_MS_TO_SYSTICKS_def px5_osSetEvent_def px5_sem_post_def px5_osResetEvent_def
        px5_drain_value px5_osWaitForEvent_def px5_sem_trywait_def zephyr_osSetEvent_def
        k_sem_give_def zephyr_osResetEvent_def k_sem_reset_def zephyr_osWaitForEvent_def
        k_sem_take_def)



section \<open>Mutex objects\<close>

lemma cmx_osCreateMutex_count:
  "cmx_osCreateMutex mutex0 s0 = (True, mutex, s) \<Longrightarrow> k_semaphores s (mutex_id mutex) = Some 1"
  by (auto simp: cmx_osCreateMutex_def K_Semaphore_Create_def K_Semaphore_Post_def Let_def
           split: prod.splits if_splits)

lemma safertos_osCreateMutex_count:
  "safertos_osCreateMutex mutex0 k0 = (True, mutex, k) \<Longrightarrow>
   \<exists>q. x_queues k (handle mutex) = Some q \<and> sem_count q = 1 \<and> sem_max q = 1"
  by (auto simp: safertos_osCreateMutex_def xSemaphoreCreateBinary_def xSemaphoreGive_def
           split: prod.splits if_splits)

text \<open>
  C6. After a successful \<^verbatim>\<open>osCreateMutex\<close> the mutex is available: its semaphore holds
  one unit, and the first \<^verbatim>\<open>osAcquireMutex\<close> returns, the kernel's wait inside it having
  succeeded at once and taken that unit. On the CMX-RTX port the semaphore is created
  empty and released once; on the SafeRTOS port the binary semaphore is given once after
  its creation, which leaves it with one unit whether the kernel created it empty or
  available.
\<close>

theorem mutex_created_available:
  "(cmx_osCreateMutex cm0 s0 = (True, cm, s) \<longrightarrow>
      k_semaphores s (mutex_id cm) = Some 1
      \<and> K_Semaphore_Wait (mutex_id cm) 0 s
          = Some (K_OK, s\<lparr>k_semaphores := (k_semaphores s)(mutex_id cm \<mapsto> 0)\<rparr>)
      \<and> cmx_osAcquireMutex cm s
          = Some (s\<lparr>k_semaphores := (k_semaphores s)(mutex_id cm \<mapsto> 0)\<rparr>))
   \<and> (safertos_osCreateMutex xm0 k0 = (True, xm, k) \<longrightarrow>
      map_option sem_count (x_queues k (handle xm)) = Some 1
      \<and> (\<exists>k'. xSemaphoreTake (handle xm) portMAX_DELAY k = Some (pdPASS, k')
              \<and> safertos_osAcquireMutex xm k = Some k'
              \<and> map_option sem_count (x_queues k' (handle xm)) = Some 0))"
proof (intro conjI impI)
  assume "cmx_osCreateMutex cm0 s0 = (True, cm, s)"
  then have one: "k_semaphores s (mutex_id cm) = Some 1" by (rule cmx_osCreateMutex_count)
  then show "k_semaphores s (mutex_id cm) = Some 1" .
  show wait: "K_Semaphore_Wait (mutex_id cm) 0 s
      = Some (K_OK, s\<lparr>k_semaphores := (k_semaphores s)(mutex_id cm \<mapsto> 0)\<rparr>)"
    using one by (simp add: K_Semaphore_Wait_def)
  show "cmx_osAcquireMutex cm s
      = Some (s\<lparr>k_semaphores := (k_semaphores s)(mutex_id cm \<mapsto> 0)\<rparr>)"
    using wait by (simp add: cmx_osAcquireMutex_def)
next
  assume "safertos_osCreateMutex xm0 k0 = (True, xm, k)"
  then obtain q where q: "x_queues k (handle xm) = Some q" "sem_count q = 1" "sem_max q = 1"
    using safertos_osCreateMutex_count by blast
  show "map_option sem_count (x_queues k (handle xm)) = Some 1" using q by simp
  let ?k' = "k\<lparr>x_queues := (x_queues k)(handle xm \<mapsto> q\<lparr>sem_count := sem_count q - 1\<rparr>)\<rparr>"
  have take: "xSemaphoreTake (handle xm) portMAX_DELAY k = Some (pdPASS, ?k')"
    using q by (simp add: xSemaphoreTake_def)
  then have "safertos_osAcquireMutex xm k = Some ?k'"
    by (simp add: safertos_osAcquireMutex_def)
  moreover have "map_option sem_count (x_queues ?k' (handle xm)) = Some 0" using q by simp
  ultimately show "\<exists>k'. xSemaphoreTake (handle xm) portMAX_DELAY k = Some (pdPASS, k')
      \<and> safertos_osAcquireMutex xm k = Some k'
      \<and> map_option sem_count (x_queues k' (handle xm)) = Some 0"
    using take by blast
qed

theorem mutex_created_available_witness:
  "cmx_osCreateMutex \<lparr>mutex_id = 7\<rparr> (cmx_initial 4)
     = (True, \<lparr>mutex_id = 0\<rparr>,
        (cmx_initial 4)\<lparr>semaphoreTable := [True, False, False, False],
                        k_semaphores := [0 \<mapsto> 1]\<rparr>)
   \<and> cmx_osAcquireMutex \<lparr>mutex_id = 0\<rparr>
        ((cmx_initial 4)\<lparr>semaphoreTable := [True, False, False, False],
                         k_semaphores := [0 \<mapsto> 1]\<rparr>)
     = Some ((cmx_initial 4)\<lparr>semaphoreTable := [True, False, False, False],
                             k_semaphores := [0 \<mapsto> 0]\<rparr>)
   \<and> safertos_osCreateMutex \<lparr>handle = NULL, buffer = 0x20000010\<rparr> (safertos_initial False 64)
     = (True, \<lparr>handle = 0x20000040, buffer = 0x20000010\<rparr>,
        (safertos_initial False 64)\<lparr>x_queues := [0x20000040 \<mapsto> \<lparr>sem_count = 1, sem_max = 1\<rparr>]\<rparr>)
   \<and> safertos_osAcquireMutex \<lparr>handle = 0x20000040, buffer = 0x20000010\<rparr>
        ((safertos_initial False 64)\<lparr>x_queues := [0x20000040 \<mapsto> \<lparr>sem_count = 1, sem_max = 1\<rparr>]\<rparr>)
     = Some ((safertos_initial False 64)\<lparr>x_queues :=
               [0x20000040 \<mapsto> \<lparr>sem_count = 0, sem_max = 1\<rparr>]\<rparr>)
   \<and> safertos_osCreateMutex \<lparr>handle = NULL, buffer = 0x20000010\<rparr> (safertos_initial True 64)
     = (True, \<lparr>handle = 0x20000040, buffer = 0x20000010\<rparr>,
        (safertos_initial True 64)\<lparr>x_queues := [0x20000040 \<mapsto> \<lparr>sem_count = 1, sem_max = 1\<rparr>]\<rparr>)
   \<and> safertos_osAcquireMutex \<lparr>handle = 0x20000040, buffer = 0x20000010\<rparr>
        ((safertos_initial True 64)\<lparr>x_queues := [0x20000040 \<mapsto> \<lparr>sem_count = 1, sem_max = 1\<rparr>]\<rparr>)
     = Some ((safertos_initial True 64)\<lparr>x_queues :=
               [0x20000040 \<mapsto> \<lparr>sem_count = 0, sem_max = 1\<rparr>]\<rparr>)"
  using mutex_created_available
    [where ?cm0.0 = "\<lparr>mutex_id = 7\<rparr>" and ?s0.0 = "cmx_initial 4"
       and cm = "\<lparr>mutex_id = 0\<rparr>"
       and s = "(cmx_initial 4)\<lparr>semaphoreTable := [True, False, False, False],
                                k_semaphores := [0 \<mapsto> 1]\<rparr>"
       and ?xm0.0 = "\<lparr>handle = NULL, buffer = 0x20000010\<rparr>"
       and ?k0.0 = "safertos_initial False 64"
       and xm = "\<lparr>handle = 0x20000040, buffer = 0x20000010\<rparr>"
       and k = "(safertos_initial False 64)\<lparr>x_queues :=
                  [0x20000040 \<mapsto> \<lparr>sem_count = 1, sem_max = 1\<rparr>]\<rparr>"]
    mutex_created_available
    [where ?cm0.0 = "\<lparr>mutex_id = 7\<rparr>" and ?s0.0 = "cmx_initial 4"
       and cm = "\<lparr>mutex_id = 0\<rparr>"
       and s = "(cmx_initial 4)\<lparr>semaphoreTable := [True, False, False, False],
                                k_semaphores := [0 \<mapsto> 1]\<rparr>"
       and ?xm0.0 = "\<lparr>handle = NULL, buffer = 0x20000010\<rparr>"
       and ?k0.0 = "safertos_initial True 64"
       and xm = "\<lparr>handle = 0x20000040, buffer = 0x20000010\<rparr>"
       and k = "(safertos_initial True 64)\<lparr>x_queues :=
                  [0x20000040 \<mapsto> \<lparr>sem_count = 1, sem_max = 1\<rparr>]\<rparr>"]
  by (simp add: cmx_osCreateMutex_def cmx_initial_def osAllocateSemaphoreId_def
        alloc_loop.simps K_Semaphore_Create_def K_Semaphore_Post_def
        OS_INVALID_SEMAPHORE_ID_def Let_def replicate_four safertos_osCreateMutex_def
        safertos_initial_def aligned_buffer_def xSemaphoreCreateBinary_def
        xSemaphoreGive_def xSemaphoreTake_def NULL_def safertos_osAcquireMutex_def)


section \<open>Semaphore objects\<close>

lemma safertos_osCreateSemaphore_count:
  "safertos_osCreateSemaphore sem0 c k0 = (True, sem, k) \<Longrightarrow>
   x_queues k (handle sem) = Some \<lparr>sem_count = unat c, sem_max = unat c\<rparr> \<and> c \<noteq> 0"
  by (auto simp: safertos_osCreateSemaphore_def xSemaphoreCreateCounting_def
           split: prod.splits if_splits)

lemma safertos_release_full:
  "x_queues k (handle sem) = Some q \<Longrightarrow> sem_count q = sem_max q \<Longrightarrow>
   safertos_osReleaseSemaphore sem k = k"
  by (simp add: safertos_osReleaseSemaphore_def xSemaphoreGive_def)

lemma safertos_releases_full:
  "x_queues k (handle sem) = Some q \<Longrightarrow> sem_count q = sem_max q \<Longrightarrow>
   (safertos_osReleaseSemaphore sem ^^ n) k = k"
  by (induction n) (simp_all add: safertos_release_full)

lemma safertos_wait_available:
  "x_queues k (handle sem) = Some q \<Longrightarrow> 0 < sem_count q \<Longrightarrow>
   safertos_osWaitForSemaphore sem t k
     = Some (True, k\<lparr>x_queues := (x_queues k)(handle sem \<mapsto> q\<lparr>sem_count := sem_count q - 1\<rparr>)\<rparr>)"
  by (simp add: safertos_osWaitForSemaphore_def xSemaphoreTake_def)

lemma safertos_wait_empty:
  "x_queues k (handle sem) = Some q \<Longrightarrow> sem_count q = 0 \<Longrightarrow> t \<noteq> INFINITE_DELAY \<Longrightarrow>
   safertos_osWaitForSemaphore sem t k = Some (False, k)"
  by (simp add: safertos_osWaitForSemaphore_def xSemaphoreTake_def OS_MS_TO_SYSTICKS_def
        portMAX_DELAY_def INFINITE_DELAY_def)

lemma safertos_wait_each_available:
  "x_queues k (handle sem) = Some q \<Longrightarrow> length ts \<le> sem_count q \<Longrightarrow>
   \<exists>k' q'. safertos_wait_each sem ts k = Some (replicate (length ts) True, k')
     \<and> x_queues k' (handle sem) = Some q' \<and> sem_count q' = sem_count q - length ts"
proof (induction ts arbitrary: k q)
  case Nil
  then show ?case by simp
next
  case (Cons t ts)
  let ?q1 = "q\<lparr>sem_count := sem_count q - 1\<rparr>"
  let ?k1 = "k\<lparr>x_queues := (x_queues k)(handle sem \<mapsto> ?q1)\<rparr>"
  have first: "safertos_osWaitForSemaphore sem t k = Some (True, ?k1)"
    using Cons.prems by (intro safertos_wait_available) auto
  have "x_queues ?k1 (handle sem) = Some ?q1" by simp
  moreover have "length ts \<le> sem_count ?q1" using Cons.prems by simp
  ultimately obtain k' q' where rest:
      "safertos_wait_each sem ts ?k1 = Some (replicate (length ts) True, k')"
      "x_queues k' (handle sem) = Some q'" "sem_count q' = sem_count ?q1 - length ts"
    using Cons.IH by blast
  have "safertos_wait_each sem (t # ts) k = Some (replicate (length (t # ts)) True, k')"
    using first rest(1) by simp
  moreover have "sem_count q' = sem_count q - length (t # ts)" using rest(3) by simp
  ultimately show ?case using rest(2) by blast
qed

lemma px5_osCreateSemaphore_value:
  "px5_osCreateSemaphore vmax sem0 c = (True, sem) \<Longrightarrow>
   px5_value sem = unat c \<and> unat c \<le> vmax"
  by (auto simp: px5_osCreateSemaphore_def px5_sem_init_def split: if_splits)

lemma px5_wait_available:
  "0 < px5_value sem \<Longrightarrow>
   px5_osWaitForSemaphore sem t = Some (True, sem\<lparr>px5_value := px5_value sem - 1\<rparr>)"
  by (simp add: px5_osWaitForSemaphore_def px5_sem_trywait_def px5_sem_wait_def
        px5_sem_timedwait_def)

lemma px5_wait_empty:
  "px5_value sem = 0 \<Longrightarrow> t \<noteq> INFINITE_DELAY \<Longrightarrow>
   px5_osWaitForSemaphore sem t = Some (False, sem)"
  by (simp add: px5_osWaitForSemaphore_def px5_sem_trywait_def px5_sem_timedwait_def)

lemma px5_wait_each_available:
  "length ts \<le> px5_value sem \<Longrightarrow>
   px5_wait_each sem ts
     = Some (replicate (length ts) True, sem\<lparr>px5_value := px5_value sem - length ts\<rparr>)"
proof (induction ts arbitrary: sem)
  case Nil
  then show ?case by simp
next
  case (Cons t ts)
  let ?s1 = "sem\<lparr>px5_value := px5_value sem - 1\<rparr>"
  have first: "px5_osWaitForSemaphore sem t = Some (True, ?s1)"
    using Cons.prems by (intro px5_wait_available) auto
  have "length ts \<le> px5_value ?s1" using Cons.prems by simp
  then have "px5_wait_each ?s1 ts
      = Some (replicate (length ts) True, ?s1\<lparr>px5_value := px5_value ?s1 - length ts\<rparr>)"
    by (rule Cons.IH)
  then show ?case using first by simp
qed

lemma px5_release_value:
  "px5_osReleaseSemaphore vmax sem
     = (if px5_value sem < vmax then sem\<lparr>px5_value := px5_value sem + 1\<rparr> else sem)"
  by (simp add: px5_osReleaseSemaphore_def px5_sem_post_def)

lemma px5_releases_value:
  "px5_value sem \<le> vmax \<Longrightarrow>
   (px5_osReleaseSemaphore vmax ^^ n) sem = sem\<lparr>px5_value := min (px5_value sem + n) vmax\<rparr>"
proof (induction n)
  case 0
  then show ?case by simp
next
  case (Suc n)
  let ?s1 = "sem\<lparr>px5_value := min (px5_value sem + n) vmax\<rparr>"
  have ih: "(px5_osReleaseSemaphore vmax ^^ n) sem = ?s1" by (rule Suc.IH [OF Suc.prems])
  have "(px5_osReleaseSemaphore vmax ^^ Suc n) sem
      = px5_osReleaseSemaphore vmax ((px5_osReleaseSemaphore vmax ^^ n) sem)" by simp
  also have "\<dots> = px5_osReleaseSemaphore vmax ?s1" by (simp only: ih)
  also have "\<dots> = sem\<lparr>px5_value := min (px5_value sem + Suc n) vmax\<rparr>"
    by (simp add: px5_release_value min_def)
  finally show ?case .
qed

text \<open>
  What the SafeRTOS and PX5 ports do for every capacity \<open>c\<close>. On both a successful
  \<^verbatim>\<open>osCreateSemaphore\<close> sets the count to \<open>c\<close>, and \<open>c\<close> calls of
  \<^verbatim>\<open>osReleaseSemaphore\<close> followed by \<open>c\<close> waits, each with any timeout, give \<open>TRUE\<close>
  on every wait. On the SafeRTOS port \<^verbatim>\<open>count\<close> is also the maximum of the semaphore:
  the releases on the full semaphore change nothing, and the wait number \<open>c + 1\<close>, with
  a timeout other than \<^verbatim>\<open>INFINITE_DELAY\<close>, returns \<open>FALSE\<close>. On the PX5 port nothing
  bounds the count by \<open>c\<close>: each release adds a unit up to the kernel-wide maximum, so
  after the releases the wait number \<open>c + 1\<close> returns \<open>TRUE\<close> (for \<open>1 \<le> c\<close> below that
  maximum); it is without any release that the wait number \<open>c + 1\<close> returns \<open>FALSE\<close>
  there.
\<close>

lemma semaphore_ports_every_capacity:
  "(safertos_osCreateSemaphore xs0 c k0 = (True, xs, k) \<and> length ts = unat c
      \<and> t \<noteq> INFINITE_DELAY \<longrightarrow>
      1 \<le> unat c
      \<and> x_queues k (handle xs) = Some \<lparr>sem_count = unat c, sem_max = unat c\<rparr>
      \<and> (\<exists>k'. safertos_wait_each xs ts ((safertos_osReleaseSemaphore xs ^^ unat c) k)
                 = Some (replicate (unat c) True, k')
              \<and> safertos_osWaitForSemaphore xs t k' = Some (False, k')))
   \<and> (px5_osCreateSemaphore vmax ps0 c = (True, ps) \<and> length ts = unat c \<longrightarrow>
      px5_value ps = unat c
      \<and> (\<exists>ps'. px5_wait_each ((px5_osReleaseSemaphore vmax ^^ unat c) ps) ts
                 = Some (replicate (unat c) True, ps')))
   \<and> (px5_osCreateSemaphore vmax ps0 c = (True, ps) \<and> length ts = unat c
      \<and> 1 \<le> unat c \<and> unat c < vmax \<longrightarrow>
      (\<exists>ps' ps''. px5_wait_each ((px5_osReleaseSemaphore vmax ^^ unat c) ps) ts
                 = Some (replicate (unat c) True, ps')
              \<and> px5_osWaitForSemaphore ps' t = Some (True, ps'')))
   \<and> (px5_osCreateSemaphore vmax ps0 c = (True, ps) \<and> length ts = unat c
      \<and> t \<noteq> INFINITE_DELAY \<longrightarrow>
      px5_wait_each ps ts = Some (replicate (unat c) True, ps\<lparr>px5_value := 0\<rparr>)
      \<and> px5_osWaitForSemaphore (ps\<lparr>px5_value := 0\<rparr>) t = Some (False, ps\<lparr>px5_value := 0\<rparr>))"
proof (intro conjI impI; elim conjE)
  assume created: "safertos_osCreateSemaphore xs0 c k0 = (True, xs, k)"
    and len: "length ts = unat c" and t: "t \<noteq> INFINITE_DELAY"
  let ?q = "\<lparr>sem_count = unat c, sem_max = unat c\<rparr>"
  have q: "x_queues k (handle xs) = Some ?q" and c: "c \<noteq> 0"
    using safertos_osCreateSemaphore_count [OF created] by simp_all
  have "unat c \<noteq> 0" using c by (simp add: unat_eq_0)
  then show "1 \<le> unat c" by simp
  show "x_queues k (handle xs) = Some ?q" by (rule q)
  have full: "(safertos_osReleaseSemaphore xs ^^ unat c) k = k"
    using q by (rule safertos_releases_full) simp
  obtain k' q' where waits: "safertos_wait_each xs ts k = Some (replicate (length ts) True, k')"
      and q': "x_queues k' (handle xs) = Some q'" "sem_count q' = sem_count ?q - length ts"
    using safertos_wait_each_available [OF q, of ts] len by auto
  have "sem_count q' = 0" using q'(2) len by simp
  with q'(1) have "safertos_osWaitForSemaphore xs t k' = Some (False, k')"
    using t by (rule safertos_wait_empty)
  then show "\<exists>k'. safertos_wait_each xs ts ((safertos_osReleaseSemaphore xs ^^ unat c) k)
        = Some (replicate (unat c) True, k')
      \<and> safertos_osWaitForSemaphore xs t k' = Some (False, k')"
    using waits len by (auto simp only: full)
next
  assume created: "px5_osCreateSemaphore vmax ps0 c = (True, ps)" and len: "length ts = unat c"
  have v: "px5_value ps = unat c" "unat c \<le> vmax"
    using px5_osCreateSemaphore_value [OF created] by simp_all
  show "px5_value ps = unat c" by (rule v)
  let ?r = "ps\<lparr>px5_value := min (px5_value ps + unat c) vmax\<rparr>"
  have rel: "(px5_osReleaseSemaphore vmax ^^ unat c) ps = ?r"
    using v by (intro px5_releases_value) simp
  have "length ts \<le> px5_value ?r" using v len by simp
  then have "px5_wait_each ?r ts
      = Some (replicate (length ts) True, ?r\<lparr>px5_value := px5_value ?r - length ts\<rparr>)"
    by (rule px5_wait_each_available)
  then show "\<exists>ps'. px5_wait_each ((px5_osReleaseSemaphore vmax ^^ unat c) ps) ts
      = Some (replicate (unat c) True, ps')"
    using len by (auto simp only: rel)
next
  assume created: "px5_osCreateSemaphore vmax ps0 c = (True, ps)" and len: "length ts = unat c"
    and c: "1 \<le> unat c" "unat c < vmax"
  have v: "px5_value ps = unat c"
    using px5_osCreateSemaphore_value [OF created] by simp
  let ?r = "ps\<lparr>px5_value := min (px5_value ps + unat c) vmax\<rparr>"
  let ?w = "?r\<lparr>px5_value := px5_value ?r - length ts\<rparr>"
  have rel: "(px5_osReleaseSemaphore vmax ^^ unat c) ps = ?r"
    using v c by (intro px5_releases_value) simp
  have "length ts \<le> px5_value ?r" using v len c by simp
  then have waits: "px5_wait_each ?r ts = Some (replicate (length ts) True, ?w)"
    by (rule px5_wait_each_available)
  have "0 < px5_value ?w" using v len c by (simp add: min_def)
  then have "px5_osWaitForSemaphore ?w t = Some (True, ?w\<lparr>px5_value := px5_value ?w - 1\<rparr>)"
    by (rule px5_wait_available)
  then show "\<exists>ps' ps''. px5_wait_each ((px5_osReleaseSemaphore vmax ^^ unat c) ps) ts
        = Some (replicate (unat c) True, ps')
      \<and> px5_osWaitForSemaphore ps' t = Some (True, ps'')"
    using waits len by (auto simp only: rel)
next
  assume created: "px5_osCreateSemaphore vmax ps0 c = (True, ps)" and len: "length ts = unat c"
    and t: "t \<noteq> INFINITE_DELAY"
  have v: "px5_value ps = unat c"
    using px5_osCreateSemaphore_value [OF created] by simp
  have "length ts \<le> px5_value ps" using v len by simp
  then have "px5_wait_each ps ts
      = Some (replicate (length ts) True, ps\<lparr>px5_value := px5_value ps - length ts\<rparr>)"
    by (rule px5_wait_each_available)
  then show "px5_wait_each ps ts = Some (replicate (unat c) True, ps\<lparr>px5_value := 0\<rparr>)"
    using v len by simp
  show "px5_osWaitForSemaphore (ps\<lparr>px5_value := 0\<rparr>) t = Some (False, ps\<lparr>px5_value := 0\<rparr>)"
    using t by (intro px5_wait_empty) simp_all
qed


lemma funpow_twice: "(f ^^ 2) x = f (f x)"
  by (simp add: numeral_2_eq_2)

lemma semaphore_ports_every_capacity_example:
  "safertos_osCreateSemaphore \<lparr>handle = NULL, buffer = 0x20000010\<rparr> 2 (safertos_initial True 64)
     = (True, \<lparr>handle = 0x20000040, buffer = 0x20000010\<rparr>,
        (safertos_initial True 64)\<lparr>x_queues := [0x20000040 \<mapsto> \<lparr>sem_count = 2, sem_max = 2\<rparr>]\<rparr>)
   \<and> length [0, 1000 :: systime_t] = unat (2 :: uint_t)
   \<and> (0 :: systime_t) \<noteq> INFINITE_DELAY
   \<and> safertos_wait_each \<lparr>handle = 0x20000040, buffer = 0x20000010\<rparr> [0, 1000]
        ((safertos_osReleaseSemaphore \<lparr>handle = 0x20000040, buffer = 0x20000010\<rparr> ^^ 2)
          ((safertos_initial True 64)\<lparr>x_queues :=
             [0x20000040 \<mapsto> \<lparr>sem_count = 2, sem_max = 2\<rparr>]\<rparr>))
     = Some ([True, True],
        (safertos_initial True 64)\<lparr>x_queues := [0x20000040 \<mapsto> \<lparr>sem_count = 0, sem_max = 2\<rparr>]\<rparr>)
   \<and> safertos_osWaitForSemaphore \<lparr>handle = 0x20000040, buffer = 0x20000010\<rparr> 0
        ((safertos_initial True 64)\<lparr>x_queues := [0x20000040 \<mapsto> \<lparr>sem_count = 0, sem_max = 2\<rparr>]\<rparr>)
     = Some (False,
        (safertos_initial True 64)\<lparr>x_queues := [0x20000040 \<mapsto> \<lparr>sem_count = 0, sem_max = 2\<rparr>]\<rparr>)
   \<and> px5_osCreateSemaphore 32767 \<lparr>px5_value = 0\<rparr> 2 = (True, \<lparr>px5_value = 2\<rparr>)
   \<and> 1 \<le> unat (2 :: uint_t) \<and> unat (2 :: uint_t) < 32767
   \<and> px5_wait_each ((px5_osReleaseSemaphore 32767 ^^ 2) \<lparr>px5_value = 2\<rparr>) [0, 1000]
     = Some ([True, True], \<lparr>px5_value = 2\<rparr>)
   \<and> px5_osWaitForSemaphore \<lparr>px5_value = 2\<rparr> 0 = Some (True, \<lparr>px5_value = 1\<rparr>)
   \<and> px5_wait_each \<lparr>px5_value = 2\<rparr> [0, 1000] = Some ([True, True], \<lparr>px5_value = 0\<rparr>)
   \<and> px5_osWaitForSemaphore \<lparr>px5_value = 0\<rparr> 0 = Some (False, \<lparr>px5_value = 0\<rparr>)"
  using semaphore_ports_every_capacity
    [where ?xs0.0 = "\<lparr>handle = NULL, buffer = 0x20000010\<rparr>" and c = 2
       and ?k0.0 = "safertos_initial True 64"
       and xs = "\<lparr>handle = 0x20000040, buffer = 0x20000010\<rparr>"
       and k = "(safertos_initial True 64)\<lparr>x_queues :=
                  [0x20000040 \<mapsto> \<lparr>sem_count = 2, sem_max = 2\<rparr>]\<rparr>"
       and ts = "[0, 1000]" and t = 0 and vmax = 32767
       and ?ps0.0 = "\<lparr>px5_value = 0\<rparr>" and ps = "\<lparr>px5_value = 2\<rparr>"]
  by (simp add: safertos_osCreateSemaphore_def xSemaphoreCreateCounting_def aligned_buffer_def
        safertos_initial_def NULL_def INFINITE_DELAY_def portMAX_DELAY_def
        OS_MS_TO_SYSTICKS_def safertos_osReleaseSemaphore_def xSemaphoreGive_def
        safertos_osWaitForSemaphore_def xSemaphoreTake_def funpow_twice
        px5_osCreateSemaphore_def px5_sem_init_def px5_osReleaseSemaphore_def
        px5_sem_post_def px5_osWaitForSemaphore_def px5_sem_trywait_def px5_sem_wait_def
        px5_sem_timedwait_def)

lemma two_units: "Suc (Suc 0) = 2"
  by simp

text \<open>
  C2. The claim: after \<^verbatim>\<open>osCreateSemaphore\<close> with capacity \<open>c\<close>, \<open>c\<close> releases and
  \<open>c\<close> successful waits, the wait number \<open>c + 1\<close> times out. The header comment of
  \<^verbatim>\<open>osCreateSemaphore\<close> in every port calls \<^verbatim>\<open>count\<close> the maximum count of the
  semaphore. Evaluated at capacity 1, with waits of timeout 0: the SafeRTOS port, which
  passes \<^verbatim>\<open>count\<close> to the kernel as the maximum, does what the claim says. The PX5 port
  (kernel-wide maximum 32767 here) and the CMX-RTX port pass \<^verbatim>\<open>count\<close> as the initial
  value only and release without any bound: after the creation and one release the count
  is 2, and the second wait returns \<open>TRUE\<close> where the claim requires \<open>FALSE\<close>.
\<close>

theorem semaphore_capacity_not_enforced:
  "px5_osCreateSemaphore 32767 \<lparr>px5_value = 0\<rparr> 1 = (True, \<lparr>px5_value = 1\<rparr>)
   \<and> px5_osReleaseSemaphore 32767 \<lparr>px5_value = 1\<rparr> = \<lparr>px5_value = 2\<rparr>
   \<and> px5_osWaitForSemaphore \<lparr>px5_value = 2\<rparr> 0 = Some (True, \<lparr>px5_value = 1\<rparr>)
   \<and> px5_osWaitForSemaphore \<lparr>px5_value = 1\<rparr> 0 = Some (True, \<lparr>px5_value = 0\<rparr>)
   \<and> cmx_osCreateSemaphore \<lparr>semaphore_id = 7\<rparr> 1 (cmx_initial 4)
     = (True, \<lparr>semaphore_id = 0\<rparr>,
        (cmx_initial 4)\<lparr>semaphoreTable := [True, False, False, False],
                        k_semaphores := [0 \<mapsto> 1]\<rparr>)
   \<and> cmx_osReleaseSemaphore \<lparr>semaphore_id = 0\<rparr>
        ((cmx_initial 4)\<lparr>semaphoreTable := [True, False, False, False],
                         k_semaphores := [0 \<mapsto> 1]\<rparr>)
     = (cmx_initial 4)\<lparr>semaphoreTable := [True, False, False, False],
                         k_semaphores := [0 \<mapsto> 2]\<rparr>
   \<and> cmx_osWaitForSemaphore \<lparr>semaphore_id = 0\<rparr> 0
        ((cmx_initial 4)\<lparr>semaphoreTable := [True, False, False, False],
                         k_semaphores := [0 \<mapsto> 2]\<rparr>)
     = Some (True, (cmx_initial 4)\<lparr>semaphoreTable := [True, False, False, False],
                                   k_semaphores := [0 \<mapsto> 1]\<rparr>)
   \<and> cmx_osWaitForSemaphore \<lparr>semaphore_id = 0\<rparr> 0
        ((cmx_initial 4)\<lparr>semaphoreTable := [True, False, False, False],
                         k_semaphores := [0 \<mapsto> 1]\<rparr>)
     = Some (True, (cmx_initial 4)\<lparr>semaphoreTable := [True, False, False, False],
                                   k_semaphores := [0 \<mapsto> 0]\<rparr>)
   \<and> safertos_osCreateSemaphore \<lparr>handle = NULL, buffer = 0x20000010\<rparr> 1
        (safertos_initial True 64)
     = (True, \<lparr>handle = 0x20000040, buffer = 0x20000010\<rparr>,
        (safertos_initial True 64)\<lparr>x_queues := [0x20000040 \<mapsto> \<lparr>sem_count = 1, sem_max = 1\<rparr>]\<rparr>)
   \<and> safertos_osReleaseSemaphore \<lparr>handle = 0x20000040, buffer = 0x20000010\<rparr>
        ((safertos_initial True 64)\<lparr>x_queues := [0x20000040 \<mapsto> \<lparr>sem_count = 1, sem_max = 1\<rparr>]\<rparr>)
     = (safertos_initial True 64)\<lparr>x_queues := [0x20000040 \<mapsto> \<lparr>sem_count = 1, sem_max = 1\<rparr>]\<rparr>
   \<and> safertos_osWaitForSemaphore \<lparr>handle = 0x20000040, buffer = 0x20000010\<rparr> 0
        ((safertos_initial True 64)\<lparr>x_queues := [0x20000040 \<mapsto> \<lparr>sem_count = 1, sem_max = 1\<rparr>]\<rparr>)
     = Some (True,
        (safertos_initial True 64)\<lparr>x_queues := [0x20000040 \<mapsto> \<lparr>sem_count = 0, sem_max = 1\<rparr>]\<rparr>)
   \<and> safertos_osWaitForSemaphore \<lparr>handle = 0x20000040, buffer = 0x20000010\<rparr> 0
        ((safertos_initial True 64)\<lparr>x_queues := [0x20000040 \<mapsto> \<lparr>sem_count = 0, sem_max = 1\<rparr>]\<rparr>)
     = Some (False,
        (safertos_initial True 64)\<lparr>x_queues := [0x20000040 \<mapsto> \<lparr>sem_count = 0, sem_max = 1\<rparr>]\<rparr>)"
  by (simp add: px5_osCreateSemaphore_def px5_sem_init_def px5_osReleaseSemaphore_def
        px5_sem_post_def px5_osWaitForSemaphore_def px5_sem_trywait_def
        cmx_osCreateSemaphore_def cmx_initial_def osAllocateSemaphoreId_def alloc_loop.simps
        K_Semaphore_Create_def OS_INVALID_SEMAPHORE_ID_def Let_def replicate_four
        cmx_osReleaseSemaphore_def K_Semaphore_Post_def cmx_osWaitForSemaphore_def
        K_Semaphore_Get_def safertos_osCreateSemaphore_def xSemaphoreCreateCounting_def
        aligned_buffer_def safertos_initial_def NULL_def safertos_osReleaseSemaphore_def
        xSemaphoreGive_def safertos_osWaitForSemaphore_def xSemaphoreTake_def
        INFINITE_DELAY_def portMAX_DELAY_def OS_MS_TO_SYSTICKS_def two_units)

end
